theory Spec2Isabelle
  imports Complex_Main
begin

section \<open>Turbojet engine performance calculator (lib.py)\<close>

text \<open>
  The library is one function, \<^verbatim>\<open>compute_engine_performance\<close>, which runs a
  closed-form cycle calculation once for every high-pressure compressor ratio of a list and
  appends fifteen numbers per ratio to fifteen lists. Its arguments are taken to be Python
  ints and floats, as \<^verbatim>\<open>main.py\<close> passes them.

  Numbers. Python floats and ints are modelled as mathematical reals: rounding, overflow and
  signed zeros are not part of the model. What is part of the model is every place where
  the program leaves the reals:
  \<^item> a division of two Python numbers by zero raises \<^verbatim>\<open>ZeroDivisionError\<close> and ends the call;
  \<^item> a negative Python float raised to a fractional power is a complex number, after which
    the rest of the computation is complex-valued; the model stops there with
    \<open>ComplexResult\<close> (it does not claim that Python raises);
  \<^item> \<^verbatim>\<open>np.sqrt\<close> of a negative number is \<^verbatim>\<open>nan\<close>, every comparison with \<^verbatim>\<open>nan\<close> is
    false, and arithmetic on \<^verbatim>\<open>numpy.float64\<close> values never raises: a zero divisor gives
    an infinity or \<^verbatim>\<open>nan\<close>.
\<close>

subsection \<open>Engine constants\<close>

definition gamma :: real where
  "gamma = 1.4"

definition R :: real where
  "R = 287"

definition PCI :: real where
  "PCI = 48000000"

definition cp :: real where
  "cp = 1004"

subsection \<open>Python numbers: operations that can end the call\<close>

datatype py_error = ZeroDivisionError | ComplexResult

definition py_bind :: "py_error + 'a \<Rightarrow> ('a \<Rightarrow> py_error + 'b) \<Rightarrow> py_error + 'b" where
  "py_bind m k = (case m of Inl e \<Rightarrow> Inl e | Inr x \<Rightarrow> k x)"

text \<open>\<^verbatim>\<open>a / b\<close> on Python numbers.\<close>

definition py_div :: "real \<Rightarrow> real \<Rightarrow> py_error + real" where
  "py_div a b = (if b = 0 then Inl ZeroDivisionError else Inr (a / b))"

text \<open>
  \<^verbatim>\<open>a ** e\<close> on Python numbers with a float exponent: zero to a negative power raises,
  a negative base to a power that is not a whole number is complex.
\<close>

definition py_pow :: "real \<Rightarrow> real \<Rightarrow> py_error + real" where
  "py_pow a e =
     (if 0 < a then Inr (a powr e)
      else if a = 0 then
        (if e < 0 then Inl ZeroDivisionError else if e = 0 then Inr 1 else Inr 0)
      else if e = of_int \<lfloor>e\<rfloor> then Inr (a powi \<lfloor>e\<rfloor>)
      else Inl ComplexResult)"

subsection \<open>numpy.float64 values\<close>

datatype npfloat = Fin real | PInf | NInf | NaN

text \<open>\<^verbatim>\<open>np.sqrt\<close> of a Python float.\<close>

definition np_sqrt :: "real \<Rightarrow> npfloat" where
  "np_sqrt x = (if x < 0 then NaN else Fin (sqrt x))"

fun np_neg :: "npfloat \<Rightarrow> npfloat" where
  "np_neg (Fin a) = Fin (- a)"
| "np_neg PInf = NInf"
| "np_neg NInf = PInf"
| "np_neg NaN = NaN"

fun np_add :: "npfloat \<Rightarrow> npfloat \<Rightarrow> npfloat" where
  "np_add NaN y = NaN"
| "np_add x NaN = NaN"
| "np_add (Fin a) (Fin b) = Fin (a + b)"
| "np_add PInf NInf = NaN"
| "np_add NInf PInf = NaN"
| "np_add PInf y = PInf"
| "np_add x PInf = PInf"
| "np_add NInf y = NInf"
| "np_add x NInf = NInf"

definition np_sub :: "npfloat \<Rightarrow> npfloat \<Rightarrow> npfloat" where
  "np_sub x y = np_add x (np_neg y)"

fun np_mul :: "npfloat \<Rightarrow> npfloat \<Rightarrow> npfloat" where
  "np_mul NaN y = NaN"
| "np_mul x NaN = NaN"
| "np_mul (Fin a) (Fin b) = Fin (a * b)"
| "np_mul (Fin a) PInf = (if a = 0 then NaN else if 0 < a then PInf else NInf)"
| "np_mul (Fin a) NInf = (if a = 0 then NaN else if 0 < a then NInf else PInf)"
| "np_mul PInf (Fin b) = (if b = 0 then NaN else if 0 < b then PInf else NInf)"
| "np_mul NInf (Fin b) = (if b = 0 then NaN else if 0 < b then NInf else PInf)"
| "np_mul PInf PInf = PInf"
| "np_mul PInf NInf = NInf"
| "np_mul NInf PInf = NInf"
| "np_mul NInf NInf = PInf"

text \<open>
  Division never raises. The model has one zero, so a nonzero number divided by zero is
  the infinity of the numerator's sign.
\<close>

fun np_div :: "npfloat \<Rightarrow> npfloat \<Rightarrow> npfloat" where
  "np_div NaN y = NaN"
| "np_div x NaN = NaN"
| "np_div (Fin a) (Fin b) =
     (if b = 0 then (if a = 0 then NaN else if 0 < a then PInf else NInf) else Fin (a / b))"
| "np_div (Fin a) PInf = Fin 0"
| "np_div (Fin a) NInf = Fin 0"
| "np_div PInf (Fin b) = (if 0 \<le> b then PInf else NInf)"
| "np_div NInf (Fin b) = (if 0 \<le> b then NInf else PInf)"
| "np_div PInf PInf = NaN"
| "np_div PInf NInf = NaN"
| "np_div NInf PInf = NaN"
| "np_div NInf NInf = NaN"

text \<open>\<^verbatim>\<open>x ** 2\<close> on a numpy value.\<close>

definition np_pow2 :: "npfloat \<Rightarrow> npfloat" where
  "np_pow2 x = np_mul x x"

text \<open>\<^verbatim>\<open>x < y\<close>: false as soon as one side is \<^verbatim>\<open>nan\<close>.\<close>

fun np_less :: "npfloat \<Rightarrow> npfloat \<Rightarrow> bool" where
  "np_less NaN y = False"
| "np_less x NaN = False"
| "np_less (Fin a) (Fin b) = (a < b)"
| "np_less (Fin a) PInf = True"
| "np_less NInf (Fin b) = True"
| "np_less NInf PInf = True"
| "np_less x y = False"

subsection \<open>The local variables of one pass of the loop, section by section\<close>

record inlet =
  Tt2 :: real
  Pt2 :: real

record fan =
  Pt13 :: real
  Tt13 :: real
  dm_fp :: real
  dm_fs :: real

record hpc =
  Pt3 :: real
  Tt3 :: real

record combustor =
  Pt4 :: real
  dm_f :: real
  f :: real

record hpt =
  Tt42 :: real
  tau_hpt :: real
  Pt42 :: real

record lpt =
  Tt5 :: real
  tau_lpt :: real
  Pt5 :: real

record nozzle_primary =
  Tt8 :: real
  Pt8 :: real
  M8_ad :: npfloat
  M8 :: npfloat
  V8 :: npfloat

record nozzle_secondary =
  Tt18 :: real
  Pt18 :: real
  M18_ad :: npfloat
  M18 :: npfloat
  V18 :: npfloat

record thrust =
  V0 :: npfloat
  T_fp :: npfloat
  T_fs :: npfloat
  T :: npfloat
  ST :: npfloat
  TSFC :: npfloat

record power =
  Wprop :: npfloat
  Wcin :: npfloat
  Wth :: real
  nprop :: npfloat
  nth :: npfloat
  nglob :: npfloat

record areas =
  Dr1 :: npfloat
  Dr2 :: npfloat
  A1 :: npfloat
  A2 :: npfloat
  A8 :: npfloat
  A18 :: npfloat

record point =
  p_inlet :: inlet
  p_fan :: fan
  p_hpc :: hpc
  p_combustor :: combustor
  p_hpt :: hpt
  p_lpt :: lpt
  p_nozzle8 :: nozzle_primary
  p_nozzle18 :: nozzle_secondary
  p_thrust :: thrust
  p_power :: power
  p_areas :: areas

text \<open>Inlet conditions.\<close>

definition inlet_conditions :: "real \<Rightarrow> real \<Rightarrow> real \<Rightarrow> py_error + inlet" where
  "inlet_conditions M0 Ts0 Ps0 =
     py_bind (py_pow (1 + (gamma - 1) / 2 * M0 ^ 2) (gamma / (gamma - 1))) (\<lambda>x.
     Inr \<lparr>Tt2 = Ts0 * (1 + (gamma - 1) / 2 * M0 ^ 2), Pt2 = Ps0 * x\<rparr>)"

text \<open>Fan exit, and the split into primary and secondary flow.\<close>

definition fan_exit :: "real \<Rightarrow> real \<Rightarrow> real \<Rightarrow> inlet \<Rightarrow> py_error + fan" where
  "fan_exit dm beta pi_fan i =
     py_bind (py_pow pi_fan ((gamma - 1) / gamma)) (\<lambda>x.
     py_bind (py_div dm (1 + beta)) (\<lambda>dm_fp'.
     Inr \<lparr>Pt13 = Pt2 i * pi_fan, Tt13 = Tt2 i * x, dm_fp = dm_fp', dm_fs = dm - dm_fp'\<rparr>))"

text \<open>High-pressure compressor exit.\<close>

definition hpc_exit :: "real \<Rightarrow> fan \<Rightarrow> py_error + hpc" where
  "hpc_exit pi_hpc fn =
     py_bind (py_pow pi_hpc ((gamma - 1) / gamma)) (\<lambda>x.
     Inr \<lparr>Pt3 = Pt13 fn * pi_hpc, Tt3 = Tt13 fn * x\<rparr>)"

text \<open>Combustor exit: fuel mass flow and fuel/air ratio.\<close>

definition combustor_exit :: "real \<Rightarrow> fan \<Rightarrow> hpc \<Rightarrow> py_error + combustor" where
  "combustor_exit Tt4 fn h =
     py_bind (py_div (dm_fp fn * cp * (Tt4 - Tt3 h)) (PCI - Tt4)) (\<lambda>dm_f'.
     py_bind (py_div dm_f' (dm_fp fn)) (\<lambda>f'.
     Inr \<lparr>Pt4 = Pt3 h, dm_f = dm_f', f = f'\<rparr>))"

text \<open>High-pressure turbine exit.\<close>

definition hpt_exit :: "real \<Rightarrow> fan \<Rightarrow> hpc \<Rightarrow> combustor \<Rightarrow> py_error + hpt" where
  "hpt_exit Tt4 fn h c =
     py_bind (py_div (Tt3 h - Tt13 fn) (1 + f c)) (\<lambda>q.
     py_bind (py_div (Tt4 - q) Tt4) (\<lambda>tau.
     py_bind (py_pow tau (gamma / (gamma - 1))) (\<lambda>x.
     Inr \<lparr>Tt42 = Tt4 - q, tau_hpt = tau, Pt42 = Pt4 c * x\<rparr>)))"

text \<open>Low-pressure turbine exit.\<close>

definition lpt_exit :: "real \<Rightarrow> inlet \<Rightarrow> fan \<Rightarrow> combustor \<Rightarrow> hpt \<Rightarrow> py_error + lpt" where
  "lpt_exit beta i fn c t =
     py_bind (py_div ((1 + beta) * (Tt13 fn - Tt2 i)) (1 + f c)) (\<lambda>q.
     py_bind (py_div (Tt42 t - q) (Tt42 t)) (\<lambda>tau.
     py_bind (py_pow tau (gamma / (gamma - 1))) (\<lambda>x.
     Inr \<lparr>Tt5 = Tt42 t - q, tau_lpt = tau, Pt5 = Pt42 t * x\<rparr>)))"

text \<open>
  Nozzle, primary flow. The radicand is written as the source's parentheses group it:
  the product of \<open>2 / (gamma - 1)\<close> and the power, minus one.
\<close>

definition nozzle_primary_flow :: "real \<Rightarrow> lpt \<Rightarrow> py_error + nozzle_primary" where
  "nozzle_primary_flow Ps0 l =
     py_bind (py_div (Pt5 l) Ps0) (\<lambda>r.
     py_bind (py_pow r ((gamma - 1) / gamma)) (\<lambda>x.
     let M8_ad' = np_sqrt ((2 / (gamma - 1)) * x - 1);
         M8' = (if np_less M8_ad' (Fin 1) then M8_ad' else Fin 1)
     in Inr \<lparr>Tt8 = Tt5 l, Pt8 = Pt5 l, M8_ad = M8_ad', M8 = M8',
              V8 = np_mul M8' (np_sqrt (gamma * R * Tt5 l))\<rparr>))"

text \<open>Nozzle, secondary flow.\<close>

definition nozzle_secondary_flow :: "real \<Rightarrow> fan \<Rightarrow> py_error + nozzle_secondary" where
  "nozzle_secondary_flow Ps0 fn =
     py_bind (py_div (Pt13 fn) Ps0) (\<lambda>r.
     py_bind (py_pow r ((gamma - 1) / gamma)) (\<lambda>x.
     let M18_ad' = np_sqrt ((2 / (gamma - 1)) * x - 1);
         M18' = (if np_less M18_ad' (Fin 1) then M18_ad' else Fin 1)
     in Inr \<lparr>Tt18 = Tt13 fn, Pt18 = Pt13 fn, M18_ad = M18_ad', M18 = M18',
              V18 = np_mul M18' (np_sqrt (gamma * R * Tt13 fn))\<rparr>))"

text \<open>Thrust calculations: numpy arithmetic from here on, nothing raises.\<close>

definition thrust_calculations ::
  "real \<Rightarrow> real \<Rightarrow> real \<Rightarrow> fan \<Rightarrow> combustor \<Rightarrow> nozzle_primary \<Rightarrow> nozzle_secondary \<Rightarrow> thrust" where
  "thrust_calculations dm M0 Ts0 fn c n8 n18 =
     (let V0' = np_mul (Fin M0) (np_sqrt (gamma * R * Ts0));
          T_fp' = np_mul (Fin ((1 + f c) * dm_fp fn)) (V8 n8);
          T_fs' = np_mul (Fin (dm_fs fn)) (V18 n18);
          T' = np_sub (np_add T_fp' T_fs') (np_mul (Fin dm) V0');
          ST' = np_div T' (Fin dm)
      in \<lparr>V0 = V0', T_fp = T_fp', T_fs = T_fs', T = T', ST = ST',
          TSFC = np_div (Fin (dm_f c)) ST'\<rparr>)"

text \<open>Power and efficiency.\<close>

definition power_and_efficiency ::
  "real \<Rightarrow> fan \<Rightarrow> combustor \<Rightarrow> nozzle_primary \<Rightarrow> nozzle_secondary \<Rightarrow> thrust \<Rightarrow> power" where
  "power_and_efficiency dm fn c n8 n18 th =
     (let Wprop' = np_mul (T th) (V0 th);
          Wcin' = np_sub
                    (np_add
                      (np_div (np_mul (Fin ((1 + f c) * dm_fp fn)) (np_pow2 (V8 n8))) (Fin 2))
                      (np_div (np_mul (Fin (dm_fs fn)) (np_pow2 (V18 n18))) (Fin 2)))
                    (np_div (np_mul (Fin dm) (np_pow2 (V0 th))) (Fin 2));
          Wth' = dm_f c * PCI
      in \<lparr>Wprop = Wprop', Wcin = Wcin', Wth = Wth',
          nprop = np_div Wprop' Wcin',
          nth = np_div Wcin' (Fin Wth'),
          nglob = np_div Wprop' (Fin Wth')\<rparr>)"

text \<open>Section areas.\<close>

definition section_areas ::
  "real \<Rightarrow> real \<Rightarrow> real \<Rightarrow> inlet \<Rightarrow> fan \<Rightarrow> combustor \<Rightarrow> nozzle_primary \<Rightarrow> nozzle_secondary
     \<Rightarrow> py_error + areas" where
  "section_areas dm M1 M2 i fn c n8 n18 =
     py_bind (py_pow (1 + ((gamma - 1) / 2) * M1 ^ 2) (- (gamma + 1) / (2 * (gamma - 1)))) (\<lambda>x1.
     py_bind (py_pow (1 + ((gamma - 1) / 2) * M2 ^ 2) (- (gamma + 1) / (2 * (gamma - 1)))) (\<lambda>x2.
     let Dr1' = np_mul (np_mul (np_sqrt (gamma / R)) (Fin M1)) (Fin x1);
         Dr2' = np_mul (np_mul (np_sqrt (gamma / R)) (Fin M2)) (Fin x2)
     in Inr \<lparr>Dr1 = Dr1', Dr2 = Dr2',
              A1 = np_div (np_mul (Fin dm) (np_sqrt (Tt2 i))) (np_mul (Fin (Pt2 i)) Dr1'),
              A2 = np_div (np_mul (Fin dm) (np_sqrt (Tt2 i))) (np_mul (Fin (Pt2 i)) Dr2'),
              A8 = np_div (np_mul (Fin ((1 + f c) * dm_fp fn)) (np_sqrt (Tt8 n8))) (Fin (Pt8 n8)),
              A18 = np_div (np_mul (Fin (dm_fs fn)) (np_sqrt (Tt18 n18))) (Fin (Pt18 n18))\<rparr>))"

text \<open>The body of the loop for one compressor ratio, in the order of the source.\<close>

definition engine_point ::
  "real \<Rightarrow> real \<Rightarrow> real \<Rightarrow> real \<Rightarrow> real \<Rightarrow> real \<Rightarrow> real \<Rightarrow> real \<Rightarrow> real \<Rightarrow> real
     \<Rightarrow> py_error + point" where
  "engine_point dm beta pi_fan Tt4 M0 Ts0 Ps0 M1 M2 pi_hpc =
     py_bind (inlet_conditions M0 Ts0 Ps0) (\<lambda>i.
     py_bind (fan_exit dm beta pi_fan i) (\<lambda>fn.
     py_bind (hpc_exit pi_hpc fn) (\<lambda>h.
     py_bind (combustor_exit Tt4 fn h) (\<lambda>c.
     py_bind (hpt_exit Tt4 fn h c) (\<lambda>t.
     py_bind (lpt_exit beta i fn c t) (\<lambda>l.
     py_bind (nozzle_primary_flow Ps0 l) (\<lambda>n8.
     py_bind (nozzle_secondary_flow Ps0 fn) (\<lambda>n18.
     let th = thrust_calculations dm M0 Ts0 fn c n8 n18;
         pw = power_and_efficiency dm fn c n8 n18 th
     in py_bind (section_areas dm M1 M2 i fn c n8 n18) (\<lambda>ar.
     Inr \<lparr>p_inlet = i, p_fan = fn, p_hpc = h, p_combustor = c, p_hpt = t, p_lpt = l,
          p_nozzle8 = n8, p_nozzle18 = n18, p_thrust = th, p_power = pw,
          p_areas = ar\<rparr>)))))))))"

subsection \<open>The result dictionary and the sweep\<close>

record results =
  T_list :: "npfloat list"
  T_fp_list :: "npfloat list"
  T_fs_list :: "npfloat list"
  ST_list :: "npfloat list"
  TSFC_list :: "npfloat list"
  Wprop_list :: "npfloat list"
  Wcin_list :: "npfloat list"
  Wth_list :: "npfloat list"
  nprop_list :: "npfloat list"
  nth_list :: "npfloat list"
  nglob_list :: "npfloat list"
  A1_list :: "npfloat list"
  A2_list :: "npfloat list"
  A8_list :: "npfloat list"
  A18_list :: "npfloat list"

text \<open>The dictionary as initialised: fifteen keys, fifteen empty lists.\<close>

definition empty_results :: results where
  "empty_results =
     \<lparr>T_list = [], T_fp_list = [], T_fs_list = [], ST_list = [], TSFC_list = [],
      Wprop_list = [], Wcin_list = [], Wth_list = [], nprop_list = [], nth_list = [],
      nglob_list = [], A1_list = [], A2_list = [], A8_list = [], A18_list = []\<rparr>"

text \<open>Save results: one \<^verbatim>\<open>append\<close> per list.\<close>

definition save_results :: "results \<Rightarrow> point \<Rightarrow> results" where
  "save_results res pt =
     \<lparr>T_list = T_list res @ [T (p_thrust pt)],
      T_fp_list = T_fp_list res @ [T_fp (p_thrust pt)],
      T_fs_list = T_fs_list res @ [T_fs (p_thrust pt)],
      ST_list = ST_list res @ [ST (p_thrust pt)],
      TSFC_list = TSFC_list res @ [TSFC (p_thrust pt)],
      Wprop_list = Wprop_list res @ [Wprop (p_power pt)],
      Wcin_list = Wcin_list res @ [Wcin (p_power pt)],
      Wth_list = Wth_list res @ [Fin (Wth (p_power pt))],
      nprop_list = nprop_list res @ [nprop (p_power pt)],
      nth_list = nth_list res @ [nth (p_power pt)],
      nglob_list = nglob_list res @ [nglob (p_power pt)],
      A1_list = A1_list res @ [A1 (p_areas pt)],
      A2_list = A2_list res @ [A2 (p_areas pt)],
      A8_list = A8_list res @ [A8 (p_areas pt)],
      A18_list = A18_list res @ [A18 (p_areas pt)]\<rparr>"

text \<open>The fifteen lists of a result, in the order of the dictionary's keys.\<close>

definition all_lists :: "results \<Rightarrow> npfloat list list" where
  "all_lists r =
     [T_list r, T_fp_list r, T_fs_list r, ST_list r, TSFC_list r, Wprop_list r, Wcin_list r,
      Wth_list r, nprop_list r, nth_list r, nglob_list r, A1_list r, A2_list r, A8_list r,
      A18_list r]"

text \<open>
  The \<^verbatim>\<open>for\<close> loop over the ratios: the first pass that raises ends the call, and the
  lists built so far are lost with it.
\<close>

fun sweep :: "(real \<Rightarrow> py_error + point) \<Rightarrow> real list \<Rightarrow> results \<Rightarrow> py_error + results" where
  "sweep body [] res = Inr res"
| "sweep body (pi_hpc # rest) res =
     (case body pi_hpc of
        Inl e \<Rightarrow> Inl e
      | Inr pt \<Rightarrow> sweep body rest (save_results res pt))"

definition compute_engine_performance ::
  "real \<Rightarrow> real \<Rightarrow> real \<Rightarrow> real list \<Rightarrow> real \<Rightarrow> real \<Rightarrow> real \<Rightarrow> real \<Rightarrow> real \<Rightarrow> real
     \<Rightarrow> py_error + results" where
  "compute_engine_performance dm beta pi_fan pi_hpc_list Tt4 M0 Ts0 Ps0 M1 M2 =
     sweep (engine_point dm beta pi_fan Tt4 M0 Ts0 Ps0 M1 M2) pi_hpc_list empty_results"

text \<open>The fifteen values one pass appends, in the order of the dictionary's keys.\<close>

definition saved_values :: "point \<Rightarrow> npfloat list" where
  "saved_values pt =
     [T (p_thrust pt), T_fp (p_thrust pt), T_fs (p_thrust pt), ST (p_thrust pt),
      TSFC (p_thrust pt), Wprop (p_power pt), Wcin (p_power pt), Fin (Wth (p_power pt)),
      nprop (p_power pt), nth (p_power pt), nglob (p_power pt), A1 (p_areas pt),
      A2 (p_areas pt), A8 (p_areas pt), A18 (p_areas pt)]"

subsection \<open>The call of main.py\<close>

text \<open>
  \<^verbatim>\<open>main.py\<close> sets \<^verbatim>\<open>dm = 210\<close>, \<^verbatim>\<open>beta = 5\<close>, \<^verbatim>\<open>pi_fan = 1.5\<close>,
  \<^verbatim>\<open>Tt4 = 1300\<close>, \<^verbatim>\<open>M0 = 0.85\<close>, \<^verbatim>\<open>Ts0 = 280.65\<close>, \<^verbatim>\<open>Ps0 = 89876\<close>,
  \<^verbatim>\<open>M1 = 0.8\<close>, \<^verbatim>\<open>M2 = 0.5\<close> and sweeps
  \<^verbatim>\<open>[n / 10 for n in range(10, 150, 10)]\<close>.
\<close>

definition main_pi_hpc_list :: "real list" where
  "main_pi_hpc_list =
     map (\<lambda>n. real n / 10) [10, 20, 30, 40, 50, 60, 70, 80, 90, 100, 110, 120, 130, 140]"

definition main_point :: "real \<Rightarrow> py_error + point" where
  "main_point pi_hpc = engine_point 210 5 1.5 1300 0.85 280.65 89876 0.8 0.5 pi_hpc"

definition main_results :: "py_error + results" where
  "main_results =
     compute_engine_performance 210 5 1.5 main_pi_hpc_list 1300 0.85 280.65 89876 0.8 0.5"

subsection \<open>The exit Mach number as the specification writes it\<close>

text \<open>
  For comparison with \<open>M8_ad\<close> and \<open>M18_ad\<close> only; nothing of the program is defined
  through it. The specification's formula subtracts one from the power of the pressure
  ratio before it multiplies by \<open>2 / (gamma - 1)\<close>.
\<close>

definition M_ad_spec :: "real \<Rightarrow> real \<Rightarrow> npfloat" where
  "M_ad_spec Pt Ps0 = np_sqrt ((2 / (gamma - 1)) * ((Pt / Ps0) powr ((gamma - 1) / gamma) - 1))"

subsection \<open>Power and efficiency on floats, with the rounding written out\<close>

text \<open>
  The three divisions of lines 141 to 143 when their operands are finite floats: each
  efficiency is the exact quotient, rounded. \<open>rnd\<close> stands for the rounding; it is a
  parameter, and the one property used of it is the relative error bound of binary64,
  \<open>1 / 2 ^ 53\<close>, which holds as long as nothing overflows or underflows. This is a
  second reading of these three lines, beside \<open>power_and_efficiency\<close>, for the one
  statement that is about rounding.
\<close>

definition rounded_efficiencies ::
  "(real \<Rightarrow> real) \<Rightarrow> real \<Rightarrow> real \<Rightarrow> real \<Rightarrow> real \<times> real \<times> real" where
  "rounded_efficiencies rnd Wprop' Wcin' Wth' =
     (rnd (Wprop' / Wcin'), rnd (Wcin' / Wth'), rnd (Wprop' / Wth'))"

section \<open>Properties\<close>

subsection \<open>Arithmetic of the model\<close>

lemma py_bind_Inr [simp]: "py_bind (Inr x) k = k x"
  by (simp add: py_bind_def)

lemma py_bind_Inl [simp]: "py_bind (Inl e) k = Inl e"
  by (simp add: py_bind_def)

lemma gamma_exponents:
  "(gamma - 1) / gamma = 2 / 7" "gamma / (gamma - 1) = 7 / 2"
  "- (gamma + 1) / (2 * (gamma - 1)) = - 3" "(gamma - 1) / 2 = 1 / 5" "2 / (gamma - 1) = 5"
  by (simp_all add: gamma_def)

lemma gamma_R: "gamma * R = 4018 / 10"
  by (simp add: gamma_def R_def)

lemma py_div_Inr_iff: "py_div a b = Inr q \<longleftrightarrow> b \<noteq> 0 \<and> q = a / b"
  by (auto simp: py_div_def)

lemma py_div_nonzero: "b \<noteq> 0 \<Longrightarrow> py_div a b = Inr (a / b)"
  by (simp add: py_div_def)

lemma py_pow_pos: "0 < a \<Longrightarrow> py_pow a e = Inr (a powr e)"
  by (simp add: py_pow_def)

lemma py_pow_nonneg: "0 \<le> a \<Longrightarrow> 0 < e \<Longrightarrow> py_pow a e = Inr (a powr e)"
  by (simp add: py_pow_def)

lemma py_pow_27_iff: "py_pow a (2 / 7) = Inr x \<longleftrightarrow> 0 \<le> a \<and> x = a powr (2 / 7)"
  by (auto simp: py_pow_def)

lemma py_pow_72_iff: "py_pow a (7 / 2) = Inr x \<longleftrightarrow> 0 \<le> a \<and> x = a powr (7 / 2)"
  by (auto simp: py_pow_def)

lemma py_div_Inl_iff: "py_div a b = Inl e \<longleftrightarrow> b = 0 \<and> e = ZeroDivisionError"
  by (auto simp: py_div_def)

lemma py_pow_27_Inl_iff: "py_pow a (2 / 7) = Inl e \<longleftrightarrow> a < 0 \<and> e = ComplexResult"
  by (auto simp: py_pow_def)

lemma py_pow_72_Inl_iff: "py_pow a (7 / 2) = Inl e \<longleftrightarrow> a < 0 \<and> e = ComplexResult"
  by (auto simp: py_pow_def)

lemma powr_27_eq:
  fixes x :: real
  assumes "0 \<le> x"
  shows "x powr (2 / 7) = (x ^ 2) powr (1 / 7)"
proof -
  have "(x ^ 2) powr (1 / 7) = (x powr 2) powr (1 / 7)"
    using assms by simp
  also have "\<dots> = x powr (2 / 7)"
    by (simp add: powr_powr)
  finally show ?thesis by simp
qed

lemma root7_power7:
  fixes l :: real
  assumes "0 \<le> l"
  shows "(l ^ 7) powr (1 / 7) = l"
proof -
  have "(l ^ 7) powr (1 / 7) = (l powr 7) powr (1 / 7)"
    using assms by simp
  also have "\<dots> = l powr 1"
    by (simp add: powr_powr)
  also have "\<dots> = l"
    using assms by simp
  finally show ?thesis .
qed

lemma powr_27_lower:
  fixes l x :: real
  assumes "0 \<le> l" and "0 \<le> x" and "l ^ 7 \<le> x ^ 2"
  shows "l \<le> x powr (2 / 7)"
proof -
  have "(l ^ 7) powr (1 / 7) \<le> (x ^ 2) powr (1 / 7)"
    using assms by (intro powr_mono2) simp_all
  then show ?thesis
    using assms by (simp add: root7_power7 powr_27_eq)
qed

lemma powr_27_upper:
  fixes u x :: real
  assumes "0 \<le> u" and "0 \<le> x" and "x ^ 2 \<le> u ^ 7"
  shows "x powr (2 / 7) \<le> u"
proof -
  have "(x ^ 2) powr (1 / 7) \<le> (u ^ 7) powr (1 / 7)"
    using assms by (intro powr_mono2) simp_all
  then show ?thesis
    using assms by (simp add: root7_power7 powr_27_eq)
qed

lemma powr_72_eq:
  fixes x :: real
  assumes "0 \<le> x"
  shows "x powr (7 / 2) = x ^ 3 * sqrt x"
proof (cases "x = 0")
  case True
  then show ?thesis by simp
next
  case False
  with assms have "0 < x" by simp
  have "x powr (7 / 2) = x powr (3 + 1 / 2)"
    by simp
  also have "\<dots> = x powr 3 * x powr (1 / 2)"
    by (simp only: powr_add)
  also have "\<dots> = x ^ 3 * sqrt x"
    using \<open>0 < x\<close> by (simp add: powr_half_sqrt)
  finally show ?thesis .
qed

lemma powr_72_le_cube:
  fixes x :: real
  assumes "0 \<le> x" and "x \<le> 1"
  shows "x powr (7 / 2) \<le> x ^ 3"
proof -
  have "sqrt x \<le> 1" using assms by simp
  then have "x ^ 3 * sqrt x \<le> x ^ 3 * 1"
    using assms by (intro mult_left_mono) simp_all
  then show ?thesis
    using assms by (simp add: powr_72_eq)
qed

lemma sqrt_scale_less:
  fixes a b x y :: real
  assumes "0 \<le> a" and "0 \<le> b" and "a ^ 2 * x < b ^ 2 * y"
  shows "a * sqrt x < b * sqrt y"
proof -
  have "a * sqrt x = sqrt (a ^ 2 * x)" "b * sqrt y = sqrt (b ^ 2 * y)"
    using assms by (simp_all add: real_sqrt_mult)
  with assms show ?thesis by simp
qed

lemma sqrt_quarter: "sqrt (1 / 4) = 1 / 2"
  by (simp add: real_sqrt_divide)

lemma fuel_air_ratio_mono:
  fixes a b t P c :: real
  assumes "a < b" and "b < P" and "t < P" and "0 < c"
  shows "c * (a - t) / (P - a) < c * (b - t) / (P - b)"
proof -
  have pos: "0 < P - a" "0 < P - b"
    using assms by simp_all
  have "0 < (b - a) * (P - t)"
    using assms by simp
  also have "(b - a) * (P - t) = (b - t) * (P - a) - (a - t) * (P - b)"
    by (simp add: algebra_simps)
  finally have "(a - t) * (P - b) < (b - t) * (P - a)"
    by simp
  then have "(a - t) / (P - a) < (b - t) / (P - b)"
    using pos by (simp add: frac_less_eq field_simps)
  then have "c * ((a - t) / (P - a)) < c * ((b - t) / (P - b))"
    using assms(4) by (simp only: mult_less_cancel_left_pos)
  then show ?thesis
    by simp
qed

text \<open>The clamp of the exit Mach number, by the sign and size of the radicand.\<close>

lemma clamp_choked:
  "1 \<le> r \<Longrightarrow> (if np_less (np_sqrt r) (Fin 1) then np_sqrt r else Fin 1) = Fin 1"
  by (simp add: np_sqrt_def)

lemma clamp_not_real:
  "r < 0 \<Longrightarrow> (if np_less (np_sqrt r) (Fin 1) then np_sqrt r else Fin 1) = Fin 1"
  by (simp add: np_sqrt_def)

lemma clamp_unchoked:
  "0 \<le> r \<Longrightarrow> r < 1 \<Longrightarrow>
   (if np_less (np_sqrt r) (Fin 1) then np_sqrt r else Fin 1) = Fin (sqrt r)"
  by (simp add: np_sqrt_def)

lemma clamp_range:
  "\<exists>m. (if np_less (np_sqrt r) (Fin 1) then np_sqrt r else Fin 1) = Fin m \<and> 0 \<le> m \<and> m \<le> 1"
  by (simp add: np_sqrt_def)

lemma np_mul_Fin_sqrt:
  "np_mul (Fin a) (np_sqrt x) = (if x < 0 then NaN else Fin (a * sqrt x))"
  by (simp add: np_sqrt_def)

lemma np_sqrt_ge_one: "1 \<le> r \<Longrightarrow> \<exists>m. np_sqrt r = Fin m \<and> 1 \<le> m"
  by (simp add: np_sqrt_def)

text \<open>
  The two radicands side by side, for a power \<open>p\<close> of the pressure ratio: \<open>5 * p - 1\<close> as
  the program groups it, \<open>5 * (p - 1)\<close> as the specification does.
\<close>

lemma coded_radicand_clamps_where_spec_is_real:
  fixes p :: real
  assumes "np_sqrt (5 * (p - 1)) = Fin m"
  shows "\<not> np_less (np_sqrt (5 * p - 1)) (Fin 1)"
proof -
  from assms have "\<not> 5 * (p - 1) < 0"
    by (auto simp: np_sqrt_def split: if_splits)
  then have "1\<^sup>2 \<le> 5 * p - 1"
    by simp
  then have "1 \<le> sqrt (5 * p - 1)"
    by (rule real_le_rsqrt)
  then show ?thesis
    by (simp add: np_sqrt_def)
qed

lemma coded_unchoked_where_spec_is_not_real:
  fixes p :: real
  assumes "np_less (np_sqrt (5 * p - 1)) (Fin 1)"
  shows "np_sqrt (5 * (p - 1)) = NaN"
proof -
  from assms have "0 \<le> 5 * p - 1" and "sqrt (5 * p - 1) < 1"
    by (auto simp: np_sqrt_def split: if_splits)
  then have "5 * p - 1 < 1"
    by simp
  then show ?thesis
    by (simp add: np_sqrt_def)
qed

subsection \<open>Powers and roots of the numbers used below\<close>

lemma fan_ratio_bounds: "1.12 \<le> (1.5::real) powr (2 / 7)" "(1.5::real) powr (2 / 7) \<le> 1.13"
proof -
  show "1.12 \<le> (1.5::real) powr (2 / 7)"
    by (rule powr_27_lower) (simp_all add: power_divide)
  show "(1.5::real) powr (2 / 7) \<le> 1.13"
    by (rule powr_27_upper) (simp_all add: power_divide)
qed

lemma last_ratio_bounds: "2.12 \<le> (14 :: real) powr (2 / 7)"
  by (rule powr_27_lower) (simp_all add: power_divide)

lemma powr_27_of_128: "(1 / 128 :: real) powr (2 / 7) = 1 / 4"
proof (rule antisym)
  show "(1 / 128 :: real) powr (2 / 7) \<le> 1 / 4"
    by (rule powr_27_upper) (simp_all add: power_divide)
  show "1 / 4 \<le> (1 / 128 :: real) powr (2 / 7)"
    by (rule powr_27_lower) (simp_all add: power_divide)
qed

lemma inlet_pressure_ratio_bounds:
  "1.6 \<le> (1.1445 :: real) powr (7 / 2)" "(1.1445 :: real) powr (7 / 2) \<le> 1.61"
proof -
  have s: "1.069 \<le> sqrt (1.1445 :: real)" "sqrt (1.1445 :: real) \<le> 1.07"
    by (rule real_le_rsqrt, simp add: power_divide) (rule real_le_lsqrt, simp_all add: power_divide)
  have e: "(1.1445 :: real) powr (7 / 2) = 1.1445 ^ 3 * sqrt 1.1445"
    by (rule powr_72_eq) simp
  show "1.6 \<le> (1.1445 :: real) powr (7 / 2)"
    unfolding e using s(1) by (simp add: power_divide)
  show "(1.1445 :: real) powr (7 / 2) \<le> 1.61"
    unfolding e using s(2) by (simp add: power_divide)
qed

lemma sqrt_11445_bounds:
  "1.069813 \<le> sqrt (1.1445 :: real)" "sqrt (1.1445 :: real) \<le> 1.0698131"
proof -
  show "1.069813 \<le> sqrt (1.1445 :: real)"
    by (rule real_le_rsqrt) (simp add: power_divide)
  show "sqrt (1.1445 :: real) \<le> 1.0698131"
    by (rule real_le_lsqrt) (simp_all add: power_divide)
qed

subsection \<open>The sections of one pass\<close>

lemma inlet_conditions_eq:
  "inlet_conditions M0 Ts0 Ps0 =
     Inr \<lparr>Tt2 = Ts0 * (1 + 1 / 5 * M0 ^ 2), Pt2 = Ps0 * (1 + 1 / 5 * M0 ^ 2) powr (7 / 2)\<rparr>"
proof -
  have "0 < 1 + 1 / 5 * M0 ^ 2"
    by (rule add_pos_nonneg) simp_all
  then show ?thesis
    by (simp add: inlet_conditions_def gamma_exponents py_pow_pos)
qed

lemma fan_exit_iff:
  "fan_exit dm beta pi_fan i = Inr fn \<longleftrightarrow>
     0 \<le> pi_fan \<and> 1 + beta \<noteq> 0 \<and>
     fn = \<lparr>Pt13 = Pt2 i * pi_fan, Tt13 = Tt2 i * pi_fan powr (2 / 7),
           dm_fp = dm / (1 + beta), dm_fs = dm - dm / (1 + beta)\<rparr>"
  by (auto simp: fan_exit_def gamma_exponents py_bind_def py_pow_27_iff py_div_Inr_iff py_div_Inl_iff py_pow_27_Inl_iff py_pow_72_Inl_iff
      split: sum.splits)

lemma hpc_exit_iff:
  "hpc_exit pi_hpc fn = Inr h \<longleftrightarrow>
     0 \<le> pi_hpc \<and> h = \<lparr>Pt3 = Pt13 fn * pi_hpc, Tt3 = Tt13 fn * pi_hpc powr (2 / 7)\<rparr>"
  by (auto simp: hpc_exit_def gamma_exponents py_bind_def py_pow_27_iff py_pow_27_Inl_iff split: sum.splits)

lemma combustor_exit_iff:
  "combustor_exit Tt4 fn h = Inr c \<longleftrightarrow>
     PCI - Tt4 \<noteq> 0 \<and> dm_fp fn \<noteq> 0 \<and>
     c = \<lparr>Pt4 = Pt3 h, dm_f = dm_fp fn * cp * (Tt4 - Tt3 h) / (PCI - Tt4),
          f = dm_fp fn * cp * (Tt4 - Tt3 h) / (PCI - Tt4) / dm_fp fn\<rparr>"
  by (auto simp: combustor_exit_def py_bind_def py_div_Inr_iff py_div_Inl_iff py_pow_27_Inl_iff py_pow_72_Inl_iff split: sum.splits)

lemma hpt_exit_iff:
  "hpt_exit Tt4 fn h c = Inr t \<longleftrightarrow>
     1 + f c \<noteq> 0 \<and> Tt4 \<noteq> 0 \<and> 0 \<le> (Tt4 - (Tt3 h - Tt13 fn) / (1 + f c)) / Tt4 \<and>
     t = \<lparr>Tt42 = Tt4 - (Tt3 h - Tt13 fn) / (1 + f c),
          tau_hpt = (Tt4 - (Tt3 h - Tt13 fn) / (1 + f c)) / Tt4,
          Pt42 = Pt4 c * ((Tt4 - (Tt3 h - Tt13 fn) / (1 + f c)) / Tt4) powr (7 / 2)\<rparr>"
  by (auto simp: hpt_exit_def gamma_exponents py_bind_def py_pow_72_iff py_div_Inr_iff py_div_Inl_iff py_pow_27_Inl_iff py_pow_72_Inl_iff
      split: sum.splits)

lemma lpt_exit_iff:
  "lpt_exit beta i fn c t = Inr l \<longleftrightarrow>
     1 + f c \<noteq> 0 \<and> Tt42 t \<noteq> 0 \<and>
     0 \<le> (Tt42 t - (1 + beta) * (Tt13 fn - Tt2 i) / (1 + f c)) / Tt42 t \<and>
     l = \<lparr>Tt5 = Tt42 t - (1 + beta) * (Tt13 fn - Tt2 i) / (1 + f c),
          tau_lpt = (Tt42 t - (1 + beta) * (Tt13 fn - Tt2 i) / (1 + f c)) / Tt42 t,
          Pt5 = Pt42 t * ((Tt42 t - (1 + beta) * (Tt13 fn - Tt2 i) / (1 + f c)) / Tt42 t) powr (7 / 2)\<rparr>"
  by (auto simp: lpt_exit_def gamma_exponents py_bind_def py_pow_72_iff py_div_Inr_iff py_div_Inl_iff py_pow_27_Inl_iff py_pow_72_Inl_iff
      split: sum.splits)

lemma nozzle_primary_flow_iff:
  "nozzle_primary_flow Ps0 l = Inr n \<longleftrightarrow>
     Ps0 \<noteq> 0 \<and> 0 \<le> Pt5 l / Ps0 \<and>
     n = \<lparr>Tt8 = Tt5 l, Pt8 = Pt5 l,
          M8_ad = np_sqrt (5 * (Pt5 l / Ps0) powr (2 / 7) - 1),
          M8 = (if np_less (np_sqrt (5 * (Pt5 l / Ps0) powr (2 / 7) - 1)) (Fin 1)
                then np_sqrt (5 * (Pt5 l / Ps0) powr (2 / 7) - 1) else Fin 1),
          V8 = np_mul (if np_less (np_sqrt (5 * (Pt5 l / Ps0) powr (2 / 7) - 1)) (Fin 1)
                       then np_sqrt (5 * (Pt5 l / Ps0) powr (2 / 7) - 1) else Fin 1)
                 (np_sqrt (gamma * R * Tt5 l))\<rparr>"
  by (auto simp: nozzle_primary_flow_def gamma_exponents py_bind_def py_pow_27_iff py_div_Inr_iff py_div_Inl_iff py_pow_27_Inl_iff py_pow_72_Inl_iff
      Let_def split: sum.splits)

lemma nozzle_secondary_flow_iff:
  "nozzle_secondary_flow Ps0 fn = Inr n \<longleftrightarrow>
     Ps0 \<noteq> 0 \<and> 0 \<le> Pt13 fn / Ps0 \<and>
     n = \<lparr>Tt18 = Tt13 fn, Pt18 = Pt13 fn,
          M18_ad = np_sqrt (5 * (Pt13 fn / Ps0) powr (2 / 7) - 1),
          M18 = (if np_less (np_sqrt (5 * (Pt13 fn / Ps0) powr (2 / 7) - 1)) (Fin 1)
                 then np_sqrt (5 * (Pt13 fn / Ps0) powr (2 / 7) - 1) else Fin 1),
          V18 = np_mul (if np_less (np_sqrt (5 * (Pt13 fn / Ps0) powr (2 / 7) - 1)) (Fin 1)
                        then np_sqrt (5 * (Pt13 fn / Ps0) powr (2 / 7) - 1) else Fin 1)
                  (np_sqrt (gamma * R * Tt13 fn))\<rparr>"
  by (auto simp: nozzle_secondary_flow_def gamma_exponents py_bind_def py_pow_27_iff
      py_div_Inr_iff py_div_Inl_iff py_pow_27_Inl_iff py_pow_72_Inl_iff Let_def split: sum.splits)

lemma nozzle_primary_values:
  assumes "nozzle_primary_flow Ps0 l = Inr n"
  shows "Tt8 n = Tt5 l" and "Pt8 n = Pt5 l"
    and "M8_ad n = np_sqrt (5 * (Pt5 l / Ps0) powr (2 / 7) - 1)"
    and "M8 n = (if np_less (M8_ad n) (Fin 1) then M8_ad n else Fin 1)"
    and "V8 n = np_mul (M8 n) (np_sqrt (gamma * R * Tt5 l))"
  using assms by (simp_all add: nozzle_primary_flow_iff)

lemma nozzle_secondary_values:
  assumes "nozzle_secondary_flow Ps0 fn = Inr n"
  shows "Tt18 n = Tt13 fn" and "Pt18 n = Pt13 fn"
    and "M18_ad n = np_sqrt (5 * (Pt13 fn / Ps0) powr (2 / 7) - 1)"
    and "M18 n = (if np_less (M18_ad n) (Fin 1) then M18_ad n else Fin 1)"
    and "V18 n = np_mul (M18 n) (np_sqrt (gamma * R * Tt13 fn))"
  using assms by (simp_all add: nozzle_secondary_flow_iff)

lemma section_areas_returns:
  "\<exists>ar. section_areas dm M1 M2 i fn c n8 n18 = Inr ar"
proof -
  have "0 < 1 + 1 / 5 * M1 ^ 2" "0 < 1 + 1 / 5 * M2 ^ 2"
    by (rule add_pos_nonneg; simp)+
  then show ?thesis
    by (simp add: section_areas_def gamma_exponents py_pow_pos Let_def)
qed

lemma section_areas_secondary:
  assumes "section_areas dm M1 M2 i fn c n8 n18 = Inr ar"
  shows "A18 ar = np_div (np_mul (Fin (dm_fs fn)) (np_sqrt (Tt18 n18))) (Fin (Pt18 n18))"
  using assms by (auto simp: section_areas_def py_bind_def Let_def split: sum.splits)

lemma engine_point_sections:
  assumes "engine_point dm beta pi_fan Tt4 M0 Ts0 Ps0 M1 M2 pi_hpc = Inr pt"
  shows "inlet_conditions M0 Ts0 Ps0 = Inr (p_inlet pt)"
    and "fan_exit dm beta pi_fan (p_inlet pt) = Inr (p_fan pt)"
    and "hpc_exit pi_hpc (p_fan pt) = Inr (p_hpc pt)"
    and "combustor_exit Tt4 (p_fan pt) (p_hpc pt) = Inr (p_combustor pt)"
    and "hpt_exit Tt4 (p_fan pt) (p_hpc pt) (p_combustor pt) = Inr (p_hpt pt)"
    and "lpt_exit beta (p_inlet pt) (p_fan pt) (p_combustor pt) (p_hpt pt) = Inr (p_lpt pt)"
    and "nozzle_primary_flow Ps0 (p_lpt pt) = Inr (p_nozzle8 pt)"
    and "nozzle_secondary_flow Ps0 (p_fan pt) = Inr (p_nozzle18 pt)"
    and "p_thrust pt = thrust_calculations dm M0 Ts0 (p_fan pt) (p_combustor pt) (p_nozzle8 pt) (p_nozzle18 pt)"
    and "p_power pt = power_and_efficiency dm (p_fan pt) (p_combustor pt) (p_nozzle8 pt) (p_nozzle18 pt) (p_thrust pt)"
    and "section_areas dm M1 M2 (p_inlet pt) (p_fan pt) (p_combustor pt) (p_nozzle8 pt) (p_nozzle18 pt) = Inr (p_areas pt)"
  using assms
  by (auto simp: engine_point_def py_bind_def Let_def split: sum.splits)

lemma engine_point_evaluates:
  fixes dm beta pi_fan Tt4 M0 Ts0 Ps0 M1 M2 pi_hpc :: real
  assumes a2: "a2 = Ts0 * (1 + 1 / 5 * M0 ^ 2)"
    and a13: "a13 = a2 * pi_fan powr (2 / 7)"
    and a3: "a3 = a13 * pi_hpc powr (2 / 7)"
    and phi: "phi = cp * (Tt4 - a3) / (PCI - Tt4)"
    and a42: "a42 = Tt4 - (a3 - a13) / (1 + phi)"
    and a5: "a5 = a42 - (1 + beta) * (a13 - a2) / (1 + phi)"
    and dm: "dm \<noteq> 0" and beta: "1 + beta \<noteq> 0"
    and pi_fan: "0 \<le> pi_fan" and pi_hpc: "0 \<le> pi_hpc"
    and Ps0: "0 < Ps0" and Tt4: "Tt4 \<noteq> PCI" "0 < Tt4"
    and phi_ok: "1 + phi \<noteq> 0"
    and a42_pos: "0 < a42" and a5_pos: "0 \<le> a5"
  shows "\<exists>pt. engine_point dm beta pi_fan Tt4 M0 Ts0 Ps0 M1 M2 pi_hpc = Inr pt
           \<and> Tt2 (p_inlet pt) = a2
           \<and> Pt2 (p_inlet pt) = Ps0 * (1 + 1 / 5 * M0 ^ 2) powr (7 / 2)
           \<and> Tt13 (p_fan pt) = a13
           \<and> Pt13 (p_fan pt) = Ps0 * (1 + 1 / 5 * M0 ^ 2) powr (7 / 2) * pi_fan
           \<and> dm_fp (p_fan pt) = dm / (1 + beta)
           \<and> dm_fs (p_fan pt) = dm - dm / (1 + beta)
           \<and> Tt3 (p_hpc pt) = a3
           \<and> f (p_combustor pt) = phi
           \<and> dm_f (p_combustor pt) = dm / (1 + beta) * phi
           \<and> Tt42 (p_hpt pt) = a42
           \<and> Tt5 (p_lpt pt) = a5
           \<and> Pt5 (p_lpt pt) =
               Ps0 * (1 + 1 / 5 * M0 ^ 2) powr (7 / 2) * pi_fan * pi_hpc
                 * (a42 / Tt4) powr (7 / 2) * (a5 / a42) powr (7 / 2)"
proof -
  define p2 where "p2 = Ps0 * (1 + 1 / 5 * M0 ^ 2) powr (7 / 2)"
  define i where "i = \<lparr>Tt2 = a2, Pt2 = p2\<rparr>"
  have i: "inlet_conditions M0 Ts0 Ps0 = Inr i"
    by (simp add: i_def a2 p2_def inlet_conditions_eq)
  define fn where "fn = \<lparr>Pt13 = p2 * pi_fan, Tt13 = a13,
    dm_fp = dm / (1 + beta), dm_fs = dm - dm / (1 + beta)\<rparr>"
  have fn: "fan_exit dm beta pi_fan i = Inr fn"
    using pi_fan beta by (simp add: fan_exit_iff fn_def a13 i_def)
  define h where "h = \<lparr>Pt3 = p2 * pi_fan * pi_hpc, Tt3 = a3\<rparr>"
  have h: "hpc_exit pi_hpc fn = Inr h"
    using pi_hpc by (simp add: hpc_exit_iff h_def a3 fn_def)
  have dm_fp: "dm_fp fn \<noteq> 0"
    using dm beta by (simp add: fn_def)
  define c where "c = \<lparr>Pt4 = p2 * pi_fan * pi_hpc, dm_f = dm / (1 + beta) * phi, f = phi\<rparr>"
  have c: "combustor_exit Tt4 fn h = Inr c"
    using dm_fp Tt4 dm beta by (simp add: combustor_exit_iff c_def phi h_def fn_def)
  define t where "t = \<lparr>Tt42 = a42, tau_hpt = a42 / Tt4,
    Pt42 = p2 * pi_fan * pi_hpc * (a42 / Tt4) powr (7 / 2)\<rparr>"
  have t: "hpt_exit Tt4 fn h c = Inr t"
    using phi_ok Tt4 a42_pos
    by (simp add: hpt_exit_iff t_def a42 c_def h_def fn_def)
  define l where "l = \<lparr>Tt5 = a5, tau_lpt = a5 / a42,
    Pt5 = p2 * pi_fan * pi_hpc * (a42 / Tt4) powr (7 / 2) * (a5 / a42) powr (7 / 2)\<rparr>"
  have l: "lpt_exit beta i fn c t = Inr l"
    using phi_ok a42_pos a5_pos
    by (simp add: lpt_exit_iff l_def t_def a5 c_def fn_def i_def)
  have p2: "0 \<le> p2"
    using Ps0 by (simp add: p2_def)
  then have Pt13: "0 \<le> Pt13 fn"
    using pi_fan by (simp add: fn_def)
  have Pt5: "0 \<le> Pt5 l"
    using p2 pi_fan pi_hpc by (simp add: l_def)
  obtain n8 where n8: "nozzle_primary_flow Ps0 l = Inr n8"
    using Ps0 Pt5 by (simp add: nozzle_primary_flow_iff)
  obtain n18 where n18: "nozzle_secondary_flow Ps0 fn = Inr n18"
    using Ps0 Pt13 by (simp add: nozzle_secondary_flow_iff)
  obtain ar where ar: "section_areas dm M1 M2 i fn c n8 n18 = Inr ar"
    using section_areas_returns by blast
  have "engine_point dm beta pi_fan Tt4 M0 Ts0 Ps0 M1 M2 pi_hpc =
      Inr \<lparr>p_inlet = i, p_fan = fn, p_hpc = h, p_combustor = c, p_hpt = t, p_lpt = l,
        p_nozzle8 = n8, p_nozzle18 = n18,
        p_thrust = thrust_calculations dm M0 Ts0 fn c n8 n18,
        p_power = power_and_efficiency dm fn c n8 n18 (thrust_calculations dm M0 Ts0 fn c n8 n18),
        p_areas = ar\<rparr>"
    by (simp add: engine_point_def i fn h c t l n8 n18 ar Let_def)
  then show ?thesis
    by (simp add: i_def fn_def h_def c_def t_def l_def p2_def)
qed

lemma point_velocities:
  assumes "engine_point dm beta pi_fan Tt4 M0 Ts0 Ps0 M1 M2 pi_hpc = Inr pt"
  shows "V8 (p_nozzle8 pt) = NaN \<or> (\<exists>v. V8 (p_nozzle8 pt) = Fin v)"
    and "V18 (p_nozzle18 pt) = NaN \<or> (\<exists>v. V18 (p_nozzle18 pt) = Fin v)"
    and "V0 (p_thrust pt) = NaN \<or> (\<exists>v. V0 (p_thrust pt) = Fin v)"
proof -
  note sec = engine_point_sections [OF assms]
  note n8 = nozzle_primary_values [OF sec(7)]
  note n18 = nozzle_secondary_values [OF sec(8)]
  have "\<exists>m. M8 (p_nozzle8 pt) = Fin m \<and> 0 \<le> m \<and> m \<le> 1"
    unfolding n8(4) n8(3) by (rule clamp_range)
  then obtain m where "M8 (p_nozzle8 pt) = Fin m"
    by blast
  then show "V8 (p_nozzle8 pt) = NaN \<or> (\<exists>v. V8 (p_nozzle8 pt) = Fin v)"
    by (simp add: n8(5) np_mul_Fin_sqrt)
  have "\<exists>m. M18 (p_nozzle18 pt) = Fin m \<and> 0 \<le> m \<and> m \<le> 1"
    unfolding n18(4) n18(3) by (rule clamp_range)
  then obtain m' where "M18 (p_nozzle18 pt) = Fin m'"
    by blast
  then show "V18 (p_nozzle18 pt) = NaN \<or> (\<exists>v. V18 (p_nozzle18 pt) = Fin v)"
    by (simp add: n18(5) np_mul_Fin_sqrt)
  show "V0 (p_thrust pt) = NaN \<or> (\<exists>v. V0 (p_thrust pt) = Fin v)"
    by (simp add: sec(9) thrust_calculations_def Let_def np_mul_Fin_sqrt)
qed

lemma point_mass_flow_nonzero:
  assumes "engine_point dm beta pi_fan Tt4 M0 Ts0 Ps0 M1 M2 pi_hpc = Inr pt"
  shows "dm \<noteq> 0"
proof -
  note sec = engine_point_sections [OF assms]
  from sec(2) have "dm_fp (p_fan pt) = dm / (1 + beta)"
    by (auto simp: fan_exit_iff)
  moreover from sec(4) have "dm_fp (p_fan pt) \<noteq> 0"
    by (simp add: combustor_exit_iff)
  ultimately show ?thesis
    by auto
qed

lemma secondary_flow_of_point:
  assumes pt: "engine_point dm beta pi_fan Tt4 M0 Ts0 Ps0 M1 M2 pi_hpc = Inr pt"
    and pt': "engine_point dm beta pi_fan Tt4 M0 Ts0 Ps0 M1 M2 pi_hpc' = Inr pt'"
  shows "T_fs (p_thrust pt) = T_fs (p_thrust pt')"
    and "A18 (p_areas pt) = A18 (p_areas pt')"
proof -
  note sec = engine_point_sections [OF pt]
  note sec' = engine_point_sections [OF pt']
  have i: "p_inlet pt = p_inlet pt'"
    using sec(1) sec'(1) by simp
  have fn: "p_fan pt = p_fan pt'"
    using sec(2) sec'(2) by (simp add: i)
  have n18: "p_nozzle18 pt = p_nozzle18 pt'"
    using sec(8) sec'(8) by (simp add: fn)
  show "T_fs (p_thrust pt) = T_fs (p_thrust pt')"
    by (simp add: sec(9) sec'(9) thrust_calculations_def Let_def fn n18)
  have "A18 (p_areas pt)
      = np_div (np_mul (Fin (dm_fs (p_fan pt))) (np_sqrt (Tt18 (p_nozzle18 pt))))
          (Fin (Pt18 (p_nozzle18 pt)))"
    by (rule section_areas_secondary [OF sec(11)])
  moreover have "A18 (p_areas pt')
      = np_div (np_mul (Fin (dm_fs (p_fan pt'))) (np_sqrt (Tt18 (p_nozzle18 pt'))))
          (Fin (Pt18 (p_nozzle18 pt')))"
    by (rule section_areas_secondary [OF sec'(11)])
  ultimately show "A18 (p_areas pt) = A18 (p_areas pt')"
    by (simp add: fn n18)
qed

lemma spec_formula_recovers_flight_mach:
  assumes M0: "0 \<le> M0" and Ps0: "0 < Ps0"
    and i: "inlet_conditions M0 Ts0 Ps0 = Inr i"
  shows "M_ad_spec (Pt2 i) Ps0 = Fin M0"
    and "np_sqrt ((2 / (gamma - 1)) * (Pt2 i / Ps0) powr ((gamma - 1) / gamma) - 1)
           = Fin (sqrt (4 + M0 ^ 2))"
proof -
  define b where "b = 1 + 1 / 5 * M0 ^ 2"
  have b: "0 < b"
    unfolding b_def by (rule add_pos_nonneg) simp_all
  from i have "Pt2 i = Ps0 * b powr (7 / 2)"
    by (auto simp: inlet_conditions_eq b_def)
  then have "Pt2 i / Ps0 = b powr (7 / 2)"
    using Ps0 by simp
  then have "(Pt2 i / Ps0) powr (2 / 7) = (b powr (7 / 2)) powr (2 / 7)"
    by simp
  also have "\<dots> = b powr 1"
    by (simp add: powr_powr)
  also have "\<dots> = b"
    using b by simp
  finally have r: "(Pt2 i / Ps0) powr (2 / 7) = b" .
  have nn: "\<not> 4 + M0 ^ 2 < 0"
    using zero_le_power2 [of M0] by linarith
  have "5 * (b - 1) = M0 ^ 2" "5 * b - 1 = 4 + M0 ^ 2"
    by (simp_all add: b_def)
  then show "M_ad_spec (Pt2 i) Ps0 = Fin M0"
    and "np_sqrt ((2 / (gamma - 1)) * (Pt2 i / Ps0) powr ((gamma - 1) / gamma) - 1)
           = Fin (sqrt (4 + M0 ^ 2))"
    using M0 nn by (simp_all add: M_ad_spec_def gamma_exponents r np_sqrt_def)
qed

subsection \<open>The sweep\<close>

lemma all_lists_save:
  "all_lists (save_results res pt) = map2 (\<lambda>l v. l @ [v]) (all_lists res) (saved_values pt)"
  by (simp add: all_lists_def save_results_def saved_values_def)

lemma length_all_lists [simp]: "length (all_lists r) = 15"
  by (simp add: all_lists_def)

lemma length_saved_values [simp]: "length (saved_values pt) = 15"
  by (simp add: saved_values_def)

lemma sweep_isl:
  "isl (sweep body rs res) \<longleftrightarrow> (\<exists>p \<in> set rs. isl (body p))"
  by (induction rs arbitrary: res) (auto split: sum.splits)

lemma sweep_single: "isl (sweep body [p] res) \<longleftrightarrow> isl (body p)"
  using sweep_isl [of body "[p]" res] by simp

lemma sweep_lists:
  assumes "sweep body rs res = Inr r" and "k < 15"
  shows "all_lists r ! k = all_lists res ! k @ map (\<lambda>p. saved_values (projr (body p)) ! k) rs"
  using assms
proof (induction rs arbitrary: res)
  case Nil
  then show ?case by simp
next
  case (Cons p rs)
  then obtain pt where pt: "body p = Inr pt" and rest: "sweep body rs (save_results res pt) = Inr r"
    by (auto split: sum.splits)
  from Cons.IH [OF rest \<open>k < 15\<close>] pt \<open>k < 15\<close> show ?case
    by (simp add: all_lists_save)
qed

lemma empty_lists: "all_lists empty_results = replicate 15 []"
  by (simp add: all_lists_def empty_results_def eval_nat_numeral)

lemma sweep_from_empty:
  assumes "sweep body rs empty_results = Inr r" and "k < 15"
  shows "all_lists r ! k = map (\<lambda>p. saved_values (projr (body p)) ! k) rs"
  using sweep_lists [OF assms] assms(2) by (simp add: empty_lists)

lemma sweep_secondary_lists:
  assumes "compute_engine_performance dm beta pi_fan pi_hpc_list Tt4 M0 Ts0 Ps0 M1 M2 = Inr r"
  shows "T_fs_list r
      = map (\<lambda>p. T_fs (p_thrust (projr (engine_point dm beta pi_fan Tt4 M0 Ts0 Ps0 M1 M2 p))))
          pi_hpc_list"
    and "A18_list r
      = map (\<lambda>p. A18 (p_areas (projr (engine_point dm beta pi_fan Tt4 M0 Ts0 Ps0 M1 M2 p))))
          pi_hpc_list"
    and "\<forall>p \<in> set pi_hpc_list. \<not> isl (engine_point dm beta pi_fan Tt4 M0 Ts0 Ps0 M1 M2 p)"
proof -
  let ?body = "engine_point dm beta pi_fan Tt4 M0 Ts0 Ps0 M1 M2"
  from assms have r: "sweep ?body pi_hpc_list empty_results = Inr r"
    by (simp add: compute_engine_performance_def)
  have "T_fs_list r = all_lists r ! 2" "A18_list r = all_lists r ! 14"
    by (simp_all add: all_lists_def)
  then show "T_fs_list r = map (\<lambda>p. T_fs (p_thrust (projr (?body p)))) pi_hpc_list"
    and "A18_list r = map (\<lambda>p. A18 (p_areas (projr (?body p)))) pi_hpc_list"
    by (simp_all add: sweep_from_empty [OF r] saved_values_def)
  have "\<not> isl (sweep ?body pi_hpc_list empty_results)"
    by (simp add: r)
  then show "\<forall>p \<in> set pi_hpc_list. \<not> isl (?body p)"
    by (simp add: sweep_isl)
qed

subsection \<open>The engine of main.py, and other inputs\<close>

lemma reference_cycle:
  assumes lo: "1 \<le> pi_hpc" and hi: "pi_hpc \<le> 14"
    and cold: "700 \<le> Tt4" and hot: "Tt4 \<le> 1300"
  shows "\<exists>pt. engine_point 210 5 1.5 Tt4 0.85 280.65 89876 0.8 0.5 pi_hpc = Inr pt
           \<and> Tt2 (p_inlet pt) = 321.203925
           \<and> Pt2 (p_inlet pt) = 89876 * 1.1445 powr (7 / 2)
           \<and> 359.7 \<le> Tt13 (p_fan pt) \<and> Tt13 (p_fan pt) \<le> 363
           \<and> Pt13 (p_fan pt) = 89876 * 1.1445 powr (7 / 2) * 1.5
           \<and> dm_fp (p_fan pt) = 35 \<and> dm_fs (p_fan pt) = 175
           \<and> Tt3 (p_hpc pt) = Tt13 (p_fan pt) * pi_hpc powr (2 / 7)
           \<and> Tt13 (p_fan pt) \<le> Tt3 (p_hpc pt) \<and> Tt3 (p_hpc pt) \<le> 774
           \<and> f (p_combustor pt) = cp * (Tt4 - Tt3 (p_hpc pt)) / (PCI - Tt4)
           \<and> dm_f (p_combustor pt) = 35 * f (p_combustor pt)
           \<and> - 0.002 < f (p_combustor pt) \<and> f (p_combustor pt) < 0.02
           \<and> Tt42 (p_hpt pt) = Tt4 - (Tt3 (p_hpc pt) - Tt13 (p_fan pt)) / (1 + f (p_combustor pt))
           \<and> Tt5 (p_lpt pt) = Tt42 (p_hpt pt) - 6 * (Tt13 (p_fan pt) - 321.203925) / (1 + f (p_combustor pt))
           \<and> Tt4 - 416 \<le> Tt42 (p_hpt pt) \<and> Tt42 (p_hpt pt) \<le> Tt4
           \<and> Tt42 (p_hpt pt) - 252 \<le> Tt5 (p_lpt pt) \<and> Tt5 (p_lpt pt) \<le> Tt42 (p_hpt pt) - 226
           \<and> Pt5 (p_lpt pt) = 89876 * 1.1445 powr (7 / 2) * 1.5 * pi_hpc
                 * (Tt42 (p_hpt pt) / Tt4) powr (7 / 2)
                 * (Tt5 (p_lpt pt) / Tt42 (p_hpt pt)) powr (7 / 2)"
proof -
  define a2 :: real where "a2 = 280.65 * (1 + 1 / 5 * 0.85 ^ 2)"
  define a13 where "a13 = a2 * 1.5 powr (2 / 7)"
  define b where "b = pi_hpc powr (2 / 7)"
  define a3 where "a3 = a13 * b"
  define phi where "phi = cp * (Tt4 - a3) / (PCI - Tt4)"
  define q1 where "q1 = (a3 - a13) / (1 + phi)"
  define q2 where "q2 = (1 + 5) * (a13 - a2) / (1 + phi)"
  define a42 where "a42 = Tt4 - q1"
  define a5 where "a5 = a42 - q2"
  have a2: "a2 = 12848157 / 40000"
    by (simp add: a2_def power_divide)
  have a13: "359.7 \<le> a13" "a13 \<le> 363"
    using fan_ratio_bounds by (simp_all add: a13_def a2)
  have "pi_hpc ^ 2 \<le> 14 ^ 2"
    using lo hi by (intro power_mono) simp_all
  then have "pi_hpc ^ 2 \<le> 2.13 ^ 7"
    by (simp add: power_divide)
  then have "pi_hpc powr (2 / 7) \<le> 2.13"
    using lo by (intro powr_27_upper) simp_all
  moreover have "1 \<le> pi_hpc powr (2 / 7)"
    using lo by (simp add: ge_one_powr_ge_zero)
  ultimately have b: "1 \<le> b" "b \<le> 2.13"
    by (simp_all add: b_def)
  have a3: "a13 \<le> a3" "a3 \<le> 774"
  proof -
    show "a13 \<le> a3"
      using a13 b by (simp add: a3_def)
    have "a13 * b \<le> 363 * 2.13"
      using a13 b by (intro mult_mono) simp_all
    then show "a3 \<le> 774"
      by (simp add: a3_def)
  qed
  have den: "0 < PCI - Tt4"
    using hot by (simp add: PCI_def)
  have "- (1 / 500) * (PCI - Tt4) < cp * (Tt4 - a3)"
    unfolding cp_def PCI_def using a3 cold hot by argo
  then have phi_lo: "- (1 / 500) < phi"
    using den by (simp add: phi_def pos_less_divide_eq)
  have "cp * (Tt4 - a3) < (1 / 50) * (PCI - Tt4)"
    unfolding cp_def PCI_def using a3 a13 cold hot by simp
  then have phi_hi: "phi < 1 / 50"
    using den by (simp add: phi_def pos_divide_less_eq)
  have pos: "0 < 1 + phi"
    using phi_lo by simp
  have q1: "0 \<le> q1" "q1 \<le> 416"
  proof -
    show "0 \<le> q1"
      using a3 pos by (simp add: q1_def)
    have "a3 - a13 \<le> 416 * (1 + phi)"
      using a3 a13 phi_lo by argo
    then show "q1 \<le> 416"
      using pos by (simp add: q1_def pos_divide_le_eq)
  qed
  have q2: "226 \<le> q2" "q2 \<le> 252"
  proof -
    have "226 * (1 + phi) \<le> (1 + 5) * (a13 - a2)"
      using a13 a2 phi_hi by argo
    then show "226 \<le> q2"
      using pos by (simp add: q2_def pos_le_divide_eq)
    have "(1 + 5) * (a13 - a2) \<le> 252 * (1 + phi)"
      using a13 a2 phi_lo by argo
    then show "q2 \<le> 252"
      using pos by (simp add: q2_def pos_divide_le_eq)
  qed
  have a42: "Tt4 - 416 \<le> a42" "a42 \<le> Tt4"
    using q1 by (simp_all add: a42_def)
  have a5: "a42 - 252 \<le> a5" "a5 \<le> a42 - 226"
    using q2 by (simp_all add: a5_def)
  have "\<exists>pt. engine_point 210 5 1.5 Tt4 0.85 280.65 89876 0.8 0.5 pi_hpc = Inr pt
           \<and> Tt2 (p_inlet pt) = a2
           \<and> Pt2 (p_inlet pt) = 89876 * (1 + 1 / 5 * 0.85 ^ 2) powr (7 / 2)
           \<and> Tt13 (p_fan pt) = a13
           \<and> Pt13 (p_fan pt) = 89876 * (1 + 1 / 5 * 0.85 ^ 2) powr (7 / 2) * 1.5
           \<and> dm_fp (p_fan pt) = 210 / (1 + 5)
           \<and> dm_fs (p_fan pt) = 210 - 210 / (1 + 5)
           \<and> Tt3 (p_hpc pt) = a3
           \<and> f (p_combustor pt) = phi
           \<and> dm_f (p_combustor pt) = 210 / (1 + 5) * phi
           \<and> Tt42 (p_hpt pt) = a42
           \<and> Tt5 (p_lpt pt) = a5
           \<and> Pt5 (p_lpt pt) =
               89876 * (1 + 1 / 5 * 0.85 ^ 2) powr (7 / 2) * 1.5 * pi_hpc
                 * (a42 / Tt4) powr (7 / 2) * (a5 / a42) powr (7 / 2)"
  proof (rule engine_point_evaluates)
    show "a2 = 280.65 * (1 + 1 / 5 * 0.85 ^ 2)" by (simp add: a2_def)
    show "a13 = a2 * 1.5 powr (2 / 7)" by (simp add: a13_def)
    show "a3 = a13 * pi_hpc powr (2 / 7)" by (simp add: a3_def b_def)
    show "phi = cp * (Tt4 - a3) / (PCI - Tt4)" by (simp add: phi_def)
    show "a42 = Tt4 - (a3 - a13) / (1 + phi)" by (simp add: a42_def q1_def)
    show "a5 = a42 - (1 + 5) * (a13 - a2) / (1 + phi)" by (simp add: a5_def q2_def)
    show "1 + phi \<noteq> 0" using pos by simp
    show "0 < a42" using a42 cold by simp
    show "0 \<le> a5" using a5 a42 cold by simp
    show "0 \<le> pi_hpc" using lo by simp
    show "Tt4 \<noteq> PCI" using den by simp
    show "0 < Tt4" using cold by simp
  qed simp_all
  then obtain pt where pt: "engine_point 210 5 1.5 Tt4 0.85 280.65 89876 0.8 0.5 pi_hpc = Inr pt"
    and v: "Tt2 (p_inlet pt) = a2"
      "Pt2 (p_inlet pt) = 89876 * (1 + 1 / 5 * 0.85 ^ 2) powr (7 / 2)"
      "Tt13 (p_fan pt) = a13"
      "Pt13 (p_fan pt) = 89876 * (1 + 1 / 5 * 0.85 ^ 2) powr (7 / 2) * 1.5"
      "dm_fp (p_fan pt) = 210 / (1 + 5)"
      "dm_fs (p_fan pt) = 210 - 210 / (1 + 5)"
      "Tt3 (p_hpc pt) = a3"
      "f (p_combustor pt) = phi"
      "dm_f (p_combustor pt) = 210 / (1 + 5) * phi"
      "Tt42 (p_hpt pt) = a42"
      "Tt5 (p_lpt pt) = a5"
      "Pt5 (p_lpt pt) =
               89876 * (1 + 1 / 5 * 0.85 ^ 2) powr (7 / 2) * 1.5 * pi_hpc
                 * (a42 / Tt4) powr (7 / 2) * (a5 / a42) powr (7 / 2)"
    by blast
  have num: "(1 + 1 / 5 * 0.85 ^ 2 :: real) = 1.1445"
    by (simp add: power_divide)
  show ?thesis
  proof (intro exI conjI)
    show "engine_point 210 5 1.5 Tt4 0.85 280.65 89876 0.8 0.5 pi_hpc = Inr pt" by (rule pt)
    show "Tt2 (p_inlet pt) = 321.203925" using v a2 by simp
    show "Pt2 (p_inlet pt) = 89876 * 1.1445 powr (7 / 2)" using v [unfolded num] by simp
    show "359.7 \<le> Tt13 (p_fan pt)" "Tt13 (p_fan pt) \<le> 363" using v a13 by simp_all
    show "Pt13 (p_fan pt) = 89876 * 1.1445 powr (7 / 2) * 1.5" using v [unfolded num] by simp
    show "dm_fp (p_fan pt) = 35" "dm_fs (p_fan pt) = 175" using v by simp_all
    show "Tt3 (p_hpc pt) = Tt13 (p_fan pt) * pi_hpc powr (2 / 7)" using v by (simp add: a3_def b_def)
    show "Tt13 (p_fan pt) \<le> Tt3 (p_hpc pt)" "Tt3 (p_hpc pt) \<le> 774" using v a3 by simp_all
    show "f (p_combustor pt) = cp * (Tt4 - Tt3 (p_hpc pt)) / (PCI - Tt4)" using v by (simp add: phi_def)
    show "dm_f (p_combustor pt) = 35 * f (p_combustor pt)" using v by simp
    show "- 0.002 < f (p_combustor pt)" "f (p_combustor pt) < 0.02" using v phi_lo phi_hi by simp_all
    show "Tt42 (p_hpt pt) = Tt4 - (Tt3 (p_hpc pt) - Tt13 (p_fan pt)) / (1 + f (p_combustor pt))"
      using v by (simp add: a42_def q1_def)
    show "Tt5 (p_lpt pt) = Tt42 (p_hpt pt) - 6 * (Tt13 (p_fan pt) - 321.203925) / (1 + f (p_combustor pt))"
      using v a2 by (simp add: a5_def q2_def)
    show "Tt4 - 416 \<le> Tt42 (p_hpt pt)" "Tt42 (p_hpt pt) \<le> Tt4" using v a42 by simp_all
    show "Tt42 (p_hpt pt) - 252 \<le> Tt5 (p_lpt pt)" "Tt5 (p_lpt pt) \<le> Tt42 (p_hpt pt) - 226"
      using v a5 by simp_all
    show "Pt5 (p_lpt pt) = 89876 * 1.1445 powr (7 / 2) * 1.5 * pi_hpc
                 * (Tt42 (p_hpt pt) / Tt4) powr (7 / 2)
                 * (Tt5 (p_lpt pt) / Tt42 (p_hpt pt)) powr (7 / 2)"
      using v [unfolded num] by simp
  qed
qed

lemma reference_flow:
  assumes pt: "engine_point 210 5 1.5 Tt4 0.85 280.65 89876 0.8 0.5 pi_hpc = Inr pt"
    and lo: "1 \<le> pi_hpc" and hi: "pi_hpc \<le> 14"
    and cold: "700 \<le> Tt4" and hot: "Tt4 \<le> 1300"
  shows "M18 (p_nozzle18 pt) = Fin 1"
    and "V18 (p_nozzle18 pt) = Fin (sqrt (gamma * R * Tt13 (p_fan pt)))"
    and "\<exists>m. M8 (p_nozzle8 pt) = Fin m \<and> 0 \<le> m \<and> m \<le> 1
           \<and> V8 (p_nozzle8 pt) = Fin (m * sqrt (gamma * R * Tt5 (p_lpt pt)))"
    and "\<exists>t. T (p_thrust pt) = Fin t \<and> 0 < t \<and> ST (p_thrust pt) = Fin (t / 210)
           \<and> TSFC (p_thrust pt) = Fin (dm_f (p_combustor pt) / (t / 210))"
    and "\<exists>w. Wcin (p_power pt) = Fin w \<and> 0 < w"
    and "Wth (p_power pt) = dm_f (p_combustor pt) * PCI"
proof -
  from reference_cycle [OF lo hi cold hot] pt
  have Tt13: "359.7 \<le> Tt13 (p_fan pt)"
    and Pt13: "Pt13 (p_fan pt) = 89876 * 1.1445 powr (7 / 2) * 1.5"
    and dm: "dm_fp (p_fan pt) = 35" "dm_fs (p_fan pt) = 175"
    and f: "- 0.002 < f (p_combustor pt)"
    and Tt42: "Tt4 - 416 \<le> Tt42 (p_hpt pt)"
    and Tt5: "Tt42 (p_hpt pt) - 252 \<le> Tt5 (p_lpt pt)"
    by auto
  note sec = engine_point_sections [OF pt]
  note n8 = nozzle_primary_values [OF sec(7)]
  note n18 = nozzle_secondary_values [OF sec(8)]
  have Tt5_pos: "0 \<le> Tt5 (p_lpt pt)"
    using Tt42 Tt5 cold by simp
  have "1 \<le> (1.1445 :: real) powr (7 / 2)"
    by (simp add: ge_one_powr_ge_zero)
  then have "1 \<le> Pt13 (p_fan pt) / 89876"
    by (simp add: Pt13)
  then have "1 \<le> (Pt13 (p_fan pt) / 89876) powr (2 / 7)"
    by (simp add: ge_one_powr_ge_zero)
  then have rad18: "1 \<le> 5 * (Pt13 (p_fan pt) / 89876) powr (2 / 7) - 1"
    by simp
  show M18: "M18 (p_nozzle18 pt) = Fin 1"
    unfolding n18(4) n18(3) by (rule clamp_choked [OF rad18])
  have g13: "0 \<le> gamma * R * Tt13 (p_fan pt)"
    using Tt13 by (simp add: gamma_R)
  show V18: "V18 (p_nozzle18 pt) = Fin (sqrt (gamma * R * Tt13 (p_fan pt)))"
    using g13 by (simp add: n18(5) M18 np_sqrt_def)
  have "\<exists>m. M8 (p_nozzle8 pt) = Fin m \<and> 0 \<le> m \<and> m \<le> 1"
    unfolding n8(4) n8(3) by (rule clamp_range)
  then obtain m where m: "M8 (p_nozzle8 pt) = Fin m" "0 \<le> m" "m \<le> 1"
    by blast
  have g5: "0 \<le> gamma * R * Tt5 (p_lpt pt)"
    using Tt5_pos by (simp add: gamma_R)
  have V8: "V8 (p_nozzle8 pt) = Fin (m * sqrt (gamma * R * Tt5 (p_lpt pt)))"
    using g5 by (simp add: n8(5) m np_sqrt_def)
  show "\<exists>m. M8 (p_nozzle8 pt) = Fin m \<and> 0 \<le> m \<and> m \<le> 1
           \<and> V8 (p_nozzle8 pt) = Fin (m * sqrt (gamma * R * Tt5 (p_lpt pt)))"
    using m V8 by blast
  define v8 where "v8 = m * sqrt (gamma * R * Tt5 (p_lpt pt))"
  define s13 where "s13 = sqrt (gamma * R * Tt13 (p_fan pt))"
  define s0 where "s0 = sqrt (gamma * R * 280.65)"
  define k where "k = (1 + f (p_combustor pt)) * 35"
  have v8: "0 \<le> v8"
    using m g5 by (simp add: v8_def)
  have k: "0 \<le> k"
    using f by (simp add: k_def)
  have g0: "\<not> gamma * R * 280.65 < 0"
    by (simp add: gamma_R)
  define t where "t = k * v8 + 175 * s13 - 210 * (0.85 * s0)"
  have th: "p_thrust pt =
      \<lparr>V0 = Fin (0.85 * s0), T_fp = Fin (k * v8), T_fs = Fin (175 * s13), T = Fin t,
       ST = np_div (Fin t) (Fin 210),
       TSFC = np_div (Fin (dm_f (p_combustor pt))) (np_div (Fin t) (Fin 210))\<rparr>"
    using g0 by (simp add: sec(9) thrust_calculations_def Let_def V8 V18 dm np_sqrt_def
        np_sub_def v8_def s13_def s0_def k_def t_def)
  have "(178.5 :: real) ^ 2 * (gamma * R * 280.65) < 175 ^ 2 * (gamma * R * Tt13 (p_fan pt))"
    using Tt13 by (simp add: gamma_R power_divide)
  then have "178.5 * s0 < 175 * s13"
    unfolding s0_def s13_def by (intro sqrt_scale_less) simp_all
  moreover have "0 \<le> k * v8"
    using k v8 by simp
  ultimately have t: "0 < t"
    by (simp add: t_def)
  show "\<exists>t. T (p_thrust pt) = Fin t \<and> 0 < t \<and> ST (p_thrust pt) = Fin (t / 210)
           \<and> TSFC (p_thrust pt) = Fin (dm_f (p_combustor pt) / (t / 210))"
    using t by (intro exI [of _ t]) (simp add: th)
  define w where "w = k * (v8 * v8) / 2 + 175 * (s13 * s13) / 2 - 210 * (0.85 * s0 * (0.85 * s0)) / 2"
  have pw: "Wcin (p_power pt) = Fin w" "Wth (p_power pt) = dm_f (p_combustor pt) * PCI"
    by (simp_all add: sec(10) th power_and_efficiency_def Let_def V8 V18 dm np_pow2_def
        np_sub_def w_def v8_def s13_def s0_def k_def)
  have "s13 * s13 = gamma * R * Tt13 (p_fan pt)" "s0 * s0 = gamma * R * 280.65"
    using g13 by (simp_all add: s13_def s0_def gamma_R)
  then have "w = k * (v8 * v8) / 2 + 175 * (gamma * R * Tt13 (p_fan pt)) / 2
      - 210 * (0.85 * 0.85 * (gamma * R * 280.65)) / 2"
    by (simp add: w_def algebra_simps)
  moreover have "0 \<le> k * (v8 * v8) / 2"
    using k by simp
  ultimately have "0 < w"
    using Tt13 by (simp add: gamma_R)
  then show "\<exists>w. Wcin (p_power pt) = Fin w \<and> 0 < w"
    using pw by blast
  show "Wth (p_power pt) = dm_f (p_combustor pt) * PCI"
    by (rule pw)
qed

lemma main_point_returns:
  assumes "1 \<le> pi_hpc" and "pi_hpc \<le> 14"
  shows "\<exists>pt. main_point pi_hpc = Inr pt"
  using reference_cycle [OF assms, of 1300] by (auto simp: main_point_def)

lemma main_sweep_in_range: "\<forall>p \<in> set main_pi_hpc_list. 1 \<le> p \<and> p \<le> 14"
  by (simp add: main_pi_hpc_list_def)

lemma main_results_returns: "\<not> isl main_results"
proof -
  have "\<forall>p \<in> set main_pi_hpc_list. \<not> isl (main_point p)"
    using main_sweep_in_range main_point_returns by fastforce
  then show ?thesis
    by (simp add: main_results_def compute_engine_performance_def sweep_isl main_point_def)
qed

lemma main_inlet:
  assumes pt: "main_point 1 = Inr pt"
  shows "Tt2 (p_inlet pt) = 321.203925"
    and "Pt2 (p_inlet pt) = 89876 * 1.1445 powr (7 / 2)"
    and "144144.8 < Pt2 (p_inlet pt)" and "Pt2 (p_inlet pt) < 144144.9"
proof -
  from pt have pt': "engine_point 210 5 1.5 1300 0.85 280.65 89876 0.8 0.5 1 = Inr pt"
    by (simp add: main_point_def)
  from reference_cycle [of 1 1300] pt'
  show Tt2: "Tt2 (p_inlet pt) = 321.203925"
    and Pt2: "Pt2 (p_inlet pt) = 89876 * 1.1445 powr (7 / 2)"
    by auto
  have e: "(1.1445 :: real) powr (7 / 2) = 1.1445 ^ 3 * sqrt 1.1445"
    by (rule powr_72_eq) simp
  show "144144.8 < Pt2 (p_inlet pt)"
    unfolding Pt2 e using sqrt_11445_bounds(1) by (simp add: power_divide)
  show "Pt2 (p_inlet pt) < 144144.9"
    unfolding Pt2 e using sqrt_11445_bounds(2) by (simp add: power_divide)
qed

lemma main_first_point:
  assumes pt: "main_point 1 = Inr pt"
  shows "Tt42 (p_hpt pt) = 1300"
    and "1048 \<le> Tt5 (p_lpt pt)" and "Tt5 (p_lpt pt) \<le> 1074"
    and "1 \<le> Pt5 (p_lpt pt) / 89876" and "Pt5 (p_lpt pt) / 89876 \<le> 1.37"
proof -
  from pt have pt': "engine_point 210 5 1.5 1300 0.85 280.65 89876 0.8 0.5 1 = Inr pt"
    by (simp add: main_point_def)
  from reference_cycle [of 1 1300] pt'
  have Tt3: "Tt3 (p_hpc pt) = Tt13 (p_fan pt) * 1 powr (2 / 7)"
    and Tt42: "Tt42 (p_hpt pt) = 1300 - (Tt3 (p_hpc pt) - Tt13 (p_fan pt)) / (1 + f (p_combustor pt))"
    and Tt5: "Tt42 (p_hpt pt) - 252 \<le> Tt5 (p_lpt pt)" "Tt5 (p_lpt pt) \<le> Tt42 (p_hpt pt) - 226"
    and Pt5: "Pt5 (p_lpt pt) = 89876 * 1.1445 powr (7 / 2) * 1.5 * 1
                 * (Tt42 (p_hpt pt) / 1300) powr (7 / 2)
                 * (Tt5 (p_lpt pt) / Tt42 (p_hpt pt)) powr (7 / 2)"
    by auto
  show a42: "Tt42 (p_hpt pt) = 1300"
    using Tt3 Tt42 by simp
  show a5: "1048 \<le> Tt5 (p_lpt pt)" "Tt5 (p_lpt pt) \<le> 1074"
    using Tt5 a42 by simp_all
  define u where "u = Tt5 (p_lpt pt) / 1300"
  define c where "c = (1.1445 :: real) powr (7 / 2)"
  have u: "0.806 \<le> u" "u \<le> 0.827"
    using a5 by (simp_all add: u_def)
  have x: "Pt5 (p_lpt pt) / 89876 = c * 1.5 * u powr (7 / 2)"
    by (simp add: Pt5 a42 u_def c_def)
  have c: "1.6 \<le> c" "c \<le> 1.61"
    using inlet_pressure_ratio_bounds by (simp_all add: c_def)
  have "u powr (7 / 2) \<le> u ^ 3"
    using u by (intro powr_72_le_cube) simp_all
  also have "u ^ 3 \<le> 0.827 ^ 3"
    using u by (intro power_mono) simp_all
  finally have up: "u powr (7 / 2) \<le> 0.566"
    by (simp add: power_divide)
  have "0.89 \<le> sqrt u"
    using u by (intro real_le_rsqrt) (simp add: power_divide)
  moreover have "0.806 ^ 3 \<le> u ^ 3"
    using u by (intro power_mono) simp_all
  ultimately have "0.806 ^ 3 * 0.89 \<le> u ^ 3 * sqrt u"
    using u by (intro mult_mono) simp_all
  then have lo: "0.466 \<le> u powr (7 / 2)"
    using u by (simp add: powr_72_eq power_divide)
  have "1.6 * 1.5 * 0.466 \<le> c * 1.5 * u powr (7 / 2)"
    using c lo by (intro mult_mono) simp_all
  then show "1 \<le> Pt5 (p_lpt pt) / 89876"
    by (simp add: x)
  have "c * 1.5 * u powr (7 / 2) \<le> 1.61 * 1.5 * 0.566"
    using c up by (intro mult_mono) simp_all
  then show "Pt5 (p_lpt pt) / 89876 \<le> 1.37"
    by (simp add: x)
qed

lemma main_first_point_mach:
  assumes pt: "main_point 1 = Inr pt"
  shows "\<exists>m. M8_ad (p_nozzle8 pt) = Fin m \<and> 1 \<le> m"
    and "np_less (M_ad_spec (Pt8 (p_nozzle8 pt)) 89876) (Fin 1)"
proof -
  from pt have pt': "engine_point 210 5 1.5 1300 0.85 280.65 89876 0.8 0.5 1 = Inr pt"
    by (simp add: main_point_def)
  note sec = engine_point_sections [OF pt']
  note n8 = nozzle_primary_values [OF sec(7)]
  define x where "x = Pt8 (p_nozzle8 pt) / 89876"
  have x: "1 \<le> x" "x \<le> 1.37"
    using main_first_point(4,5) [OF pt] by (simp_all add: x_def n8(2))
  have lo: "1 \<le> x powr (2 / 7)"
    using x by (simp add: ge_one_powr_ge_zero)
  have "x ^ 2 \<le> 1.37 ^ 2"
    using x by (intro power_mono) simp_all
  then have "x ^ 2 \<le> 1.19 ^ 7"
    by (simp add: power_divide)
  then have hi: "x powr (2 / 7) \<le> 1.19"
    using x by (intro powr_27_upper) simp_all
  have "1 \<le> 5 * x powr (2 / 7) - 1"
    using lo by simp
  then show "\<exists>m. M8_ad (p_nozzle8 pt) = Fin m \<and> 1 \<le> m"
    unfolding n8(3) n8(2) [symmetric] x_def [symmetric] by (rule np_sqrt_ge_one)
  have s: "0 \<le> 5 * (x powr (2 / 7) - 1)" "5 * (x powr (2 / 7) - 1) < 1"
    using lo hi by simp_all
  have "M_ad_spec (Pt8 (p_nozzle8 pt)) 89876 = np_sqrt (5 * (x powr (2 / 7) - 1))"
    by (simp add: M_ad_spec_def gamma_exponents x_def)
  also have "\<dots> = Fin (sqrt (5 * (x powr (2 / 7) - 1)))"
    using s by (simp add: np_sqrt_def)
  finally show "np_less (M_ad_spec (Pt8 (p_nozzle8 pt)) 89876) (Fin 1)"
    using s by simp
qed

lemma cold_point:
  "\<exists>pt. engine_point 210 5 1.5 700 0.85 280.65 89876 0.8 0.5 14 = Inr pt
     \<and> 762 < Tt3 (p_hpc pt) \<and> dm_fp (p_fan pt) = 35
     \<and> dm_f (p_combustor pt) < 0"
proof -
  from reference_cycle [of 14 700]
  obtain pt where pt: "engine_point 210 5 1.5 700 0.85 280.65 89876 0.8 0.5 14 = Inr pt"
    and Tt13: "359.7 \<le> Tt13 (p_fan pt)"
    and Tt3: "Tt3 (p_hpc pt) = Tt13 (p_fan pt) * 14 powr (2 / 7)"
    and dm_fp: "dm_fp (p_fan pt) = 35"
    and f: "f (p_combustor pt) = cp * (700 - Tt3 (p_hpc pt)) / (PCI - 700)"
    and dm_f: "dm_f (p_combustor pt) = 35 * f (p_combustor pt)"
    by auto
  have "359.7 * 2.12 \<le> Tt13 (p_fan pt) * 14 powr (2 / 7)"
    using Tt13 last_ratio_bounds by (intro mult_mono) simp_all
  then have hot: "762 < Tt3 (p_hpc pt)"
    by (simp add: Tt3)
  then have "f (p_combustor pt) < 0"
    by (simp add: f cp_def PCI_def divide_neg_pos)
  then have "dm_f (p_combustor pt) < 0"
    by (simp add: dm_f)
  with pt hot dm_fp show ?thesis
    by blast
qed

lemma bench_point:
  assumes "0 \<le> pi_fan" and "pi_fan \<le> 1"
  shows "\<exists>pt. engine_point 210 5 pi_fan 1300 0 300 89876 0.8 0.5 1 = Inr pt
           \<and> Pt13 (p_fan pt) = 89876 * pi_fan
           \<and> Tt13 (p_fan pt) = 300 * pi_fan powr (2 / 7)"
proof -
  define a13 where "a13 = 300 * pi_fan powr (2 / 7)"
  define phi where "phi = cp * (1300 - a13) / (PCI - 1300)"
  define a5 where "a5 = 1300 - (1 + 5) * (a13 - 300) / (1 + phi)"
  have "pi_fan powr (2 / 7) \<le> 1"
    using assms by (intro powr_le1) simp_all
  then have a13: "0 \<le> a13" "a13 \<le> 300"
    by (simp_all add: a13_def)
  then have phi: "0 < phi"
    by (simp add: phi_def cp_def PCI_def)
  have "(1 + 5) * (a13 - 300) / (1 + phi) \<le> 0"
    using a13 phi by (intro divide_nonpos_pos) simp_all
  then have a5: "0 \<le> a5"
    unfolding a5_def by linarith
  have "\<exists>pt. engine_point 210 5 pi_fan 1300 0 300 89876 0.8 0.5 1 = Inr pt
           \<and> Tt2 (p_inlet pt) = 300
           \<and> Pt2 (p_inlet pt) = 89876 * (1 + 1 / 5 * 0 ^ 2) powr (7 / 2)
           \<and> Tt13 (p_fan pt) = a13
           \<and> Pt13 (p_fan pt) = 89876 * (1 + 1 / 5 * 0 ^ 2) powr (7 / 2) * pi_fan
           \<and> dm_fp (p_fan pt) = 210 / (1 + 5)
           \<and> dm_fs (p_fan pt) = 210 - 210 / (1 + 5)
           \<and> Tt3 (p_hpc pt) = a13
           \<and> f (p_combustor pt) = phi
           \<and> dm_f (p_combustor pt) = 210 / (1 + 5) * phi
           \<and> Tt42 (p_hpt pt) = 1300
           \<and> Tt5 (p_lpt pt) = a5
           \<and> Pt5 (p_lpt pt) =
               89876 * (1 + 1 / 5 * 0 ^ 2) powr (7 / 2) * pi_fan * 1
                 * (1300 / 1300) powr (7 / 2) * (a5 / 1300) powr (7 / 2)"
  proof (rule engine_point_evaluates)
    show "a13 = 300 * pi_fan powr (2 / 7)" by (simp add: a13_def)
    show "phi = cp * (1300 - a13) / (PCI - 1300)" by (simp add: phi_def)
    show "a5 = 1300 - (1 + 5) * (a13 - 300) / (1 + phi)" by (simp add: a5_def)
    show "1 + phi \<noteq> 0" using phi by simp
    show "0 \<le> a5" by (rule a5)
    show "0 \<le> pi_fan" by (rule assms)
  qed (simp_all add: PCI_def)
  then show ?thesis
    by (auto simp: a13_def)
qed

subsection \<open>The efficiency identity under rounding\<close>

lemma abs_diff_of_products: fixes X Y x y :: real shows "\<bar>X * Y - x * y\<bar> \<le> \<bar>X\<bar> * \<bar>Y - y\<bar> + \<bar>X - x\<bar> * \<bar>y\<bar>"
proof -
  have "X * Y - x * y = X * (Y - y) + (X - x) * y"
    by (simp add: algebra_simps)
  also have "\<bar>\<dots>\<bar> \<le> \<bar>X * (Y - y)\<bar> + \<bar>(X - x) * y\<bar>"
    by (rule abs_triangle_ineq)
  finally show ?thesis
    by (simp add: abs_mult)
qed

lemma abs_triangle3: fixes a b c :: real shows "\<bar>a + b + c\<bar> \<le> \<bar>a\<bar> + \<bar>b\<bar> + \<bar>c\<bar>"
  by linarith

lemma product_error_eq: fixes u x y :: real shows "((1 + u) * \<bar>x\<bar>) * (u * \<bar>y\<bar>) + (u * \<bar>x\<bar>) * \<bar>y\<bar> = (2 * u + u ^ 2) * (\<bar>x\<bar> * \<bar>y\<bar>)"
  by (simp add: algebra_simps power2_eq_square)

lemma total_error_eq: fixes u z :: real shows "u * ((1 + u) ^ 2 * z) + (2 * u + u ^ 2) * z + u * z = (4 * u + 3 * u ^ 2 + u ^ 3) * z"
  by (simp add: algebra_simps power2_eq_square power3_eq_cube)

lemma rounded_product_close:
  fixes rnd :: "real \<Rightarrow> real" and a b c u :: real
  assumes rnd: "\<And>x. \<bar>rnd x - x\<bar> \<le> u * \<bar>x\<bar>"
    and u: "0 \<le> u" "u < 1"
    and b: "b \<noteq> 0" and c: "c \<noteq> 0"
  shows "(1 - u) * \<bar>rnd (rnd (a / b) * rnd (b / c)) - rnd (a / c)\<bar>
      \<le> (4 * u + 3 * u ^ 2 + u ^ 3) * \<bar>rnd (a / c)\<bar>"
proof -
  define x y z where "x = a / b" and "y = b / c" and "z = a / c"
  define X Y P Z where "X = rnd x" and "Y = rnd y" and "P = rnd (X * Y)" and "Z = rnd z"
  have z: "z = x * y"
    using b c by (simp add: x_def y_def z_def)
  have az: "\<bar>z\<bar> = \<bar>x\<bar> * \<bar>y\<bar>"
    by (simp add: z abs_mult)
  have eX: "\<bar>X - x\<bar> \<le> u * \<bar>x\<bar>" and eY: "\<bar>Y - y\<bar> \<le> u * \<bar>y\<bar>"
    and eP: "\<bar>P - X * Y\<bar> \<le> u * \<bar>X * Y\<bar>" and eZ: "\<bar>Z - z\<bar> \<le> u * \<bar>z\<bar>"
    unfolding X_def Y_def P_def Z_def by (rule rnd)+
  have "\<bar>X\<bar> \<le> \<bar>x\<bar> + u * \<bar>x\<bar>"
    using eX by linarith
  then have aX: "\<bar>X\<bar> \<le> (1 + u) * \<bar>x\<bar>"
    by (simp add: algebra_simps)
  have "\<bar>Y\<bar> \<le> \<bar>y\<bar> + u * \<bar>y\<bar>"
    using eY by linarith
  then have aY: "\<bar>Y\<bar> \<le> (1 + u) * \<bar>y\<bar>"
    by (simp add: algebra_simps)
  have "\<bar>X * Y - x * y\<bar> \<le> \<bar>X\<bar> * \<bar>Y - y\<bar> + \<bar>X - x\<bar> * \<bar>y\<bar>"
    by (rule abs_diff_of_products)
  also have "\<dots> \<le> ((1 + u) * \<bar>x\<bar>) * (u * \<bar>y\<bar>) + (u * \<bar>x\<bar>) * \<bar>y\<bar>"
  proof (rule add_mono)
    show "\<bar>X\<bar> * \<bar>Y - y\<bar> \<le> (1 + u) * \<bar>x\<bar> * (u * \<bar>y\<bar>)"
      using aX eY u by (intro mult_mono) simp_all
    show "\<bar>X - x\<bar> * \<bar>y\<bar> \<le> u * \<bar>x\<bar> * \<bar>y\<bar>"
      using eX by (intro mult_right_mono) simp_all
  qed
  also have "\<dots> = (2 * u + u ^ 2) * (\<bar>x\<bar> * \<bar>y\<bar>)"
    by (rule product_error_eq)
  finally have "\<bar>X * Y - x * y\<bar> \<le> (2 * u + u ^ 2) * (\<bar>x\<bar> * \<bar>y\<bar>)" .
  then have d1: "\<bar>X * Y - z\<bar> \<le> (2 * u + u ^ 2) * \<bar>z\<bar>"
    by (simp only: z abs_mult)
  have "\<bar>X * Y\<bar> = \<bar>X\<bar> * \<bar>Y\<bar>"
    by (rule abs_mult)
  also have "\<dots> \<le> ((1 + u) * \<bar>x\<bar>) * ((1 + u) * \<bar>y\<bar>)"
    using aX aY u by (intro mult_mono) simp_all
  also have "\<dots> = (1 + u) ^ 2 * (\<bar>x\<bar> * \<bar>y\<bar>)"
    by (simp add: power2_eq_square)
  finally have "\<bar>X * Y\<bar> \<le> (1 + u) ^ 2 * (\<bar>x\<bar> * \<bar>y\<bar>)" .
  then have "\<bar>X * Y\<bar> \<le> (1 + u) ^ 2 * \<bar>z\<bar>"
    by (simp only: az)
  then have "u * \<bar>X * Y\<bar> \<le> u * ((1 + u) ^ 2 * \<bar>z\<bar>)"
    using u(1) by (rule mult_left_mono)
  with eP have d2: "\<bar>P - X * Y\<bar> \<le> u * ((1 + u) ^ 2 * \<bar>z\<bar>)"
    by (rule order_trans)
  have d3: "\<bar>z - Z\<bar> \<le> u * \<bar>z\<bar>"
    using eZ by (simp only: abs_minus_commute)
  have "P - Z = (P - X * Y) + (X * Y - z) + (z - Z)"
    by simp
  then have "\<bar>P - Z\<bar> \<le> \<bar>P - X * Y\<bar> + \<bar>X * Y - z\<bar> + \<bar>z - Z\<bar>"
    using abs_triangle3 [of "P - X * Y" "X * Y - z" "z - Z"] by (simp only:)
  also have "\<dots> \<le> u * ((1 + u) ^ 2 * \<bar>z\<bar>) + (2 * u + u ^ 2) * \<bar>z\<bar> + u * \<bar>z\<bar>"
    by (intro add_mono d1 d2 d3)
  also have "\<dots> = (4 * u + 3 * u ^ 2 + u ^ 3) * \<bar>z\<bar>"
    by (rule total_error_eq)
  finally have d: "\<bar>P - Z\<bar> \<le> (4 * u + 3 * u ^ 2 + u ^ 3) * \<bar>z\<bar>" .
  have k: "0 \<le> 4 * u + 3 * u ^ 2 + u ^ 3"
    using u(1) by simp
  have "\<bar>z\<bar> - u * \<bar>z\<bar> \<le> \<bar>Z\<bar>"
    using eZ by linarith
  then have "(1 - u) * \<bar>z\<bar> \<le> \<bar>Z\<bar>"
    by (simp add: algebra_simps)
  then have "(4 * u + 3 * u ^ 2 + u ^ 3) * ((1 - u) * \<bar>z\<bar>)
      \<le> (4 * u + 3 * u ^ 2 + u ^ 3) * \<bar>Z\<bar>"
    using k by (rule mult_left_mono)
  moreover have "(1 - u) * \<bar>P - Z\<bar> \<le> (1 - u) * ((4 * u + 3 * u ^ 2 + u ^ 3) * \<bar>z\<bar>)"
    using d u(2) by (intro mult_left_mono) simp_all
  moreover have "(1 - u) * ((4 * u + 3 * u ^ 2 + u ^ 3) * \<bar>z\<bar>)
      = (4 * u + 3 * u ^ 2 + u ^ 3) * ((1 - u) * \<bar>z\<bar>)"
    by (simp only: mult.left_commute)
  ultimately have "(1 - u) * \<bar>P - Z\<bar> \<le> (4 * u + 3 * u ^ 2 + u ^ 3) * \<bar>Z\<bar>"
    by (simp only:)
  then show ?thesis
    unfolding P_def X_def Y_def Z_def x_def y_def z_def .
qed

lemma unit_roundoff:
  fixes u :: real
  assumes "u = 1 / 2 ^ 53"
  shows "0 \<le> u" and "u < 1" and "8 * u \<le> (1 - u) / 10 ^ 9"
  using assms by simp_all

lemma cubic_le_linear:
  fixes u :: real
  assumes "0 \<le> u" and "u < 1"
  shows "4 * u + 3 * u ^ 2 + u ^ 3 \<le> 8 * u"
proof -
  have u2: "u * u \<le> u"
    using assms by (simp add: mult_left_le)
  have "u * (u * u) \<le> u * u"
    using u2 assms(1) by (rule mult_left_mono)
  then have "u * (u * u) \<le> u"
    using u2 by (rule order_trans)
  with u2 show ?thesis
    by (simp add: power2_eq_square power3_eq_cube)
qed

lemma efficiency_identity_rounded:
  fixes rnd :: "real \<Rightarrow> real"
  assumes rnd: "\<And>x. \<bar>rnd x - x\<bar> \<le> \<bar>x\<bar> / 2 ^ 53"
    and Wcin: "Wcin' \<noteq> 0" and Wth: "Wth' \<noteq> 0"
    and eff: "rounded_efficiencies rnd Wprop' Wcin' Wth' = (nprop', nth', nglob')"
  shows "\<bar>rnd (nprop' * nth') - nglob'\<bar> \<le> \<bar>nglob'\<bar> / 10 ^ 9"
proof -
  define u :: real where "u = 1 / 2 ^ 53"
  note u = unit_roundoff [OF u_def]
  have r: "\<bar>rnd x - x\<bar> \<le> u * \<bar>x\<bar>" for x
    using rnd [of x] by (simp add: u_def)
  define d where "d = \<bar>rnd (rnd (Wprop' / Wcin') * rnd (Wcin' / Wth')) - rnd (Wprop' / Wth')\<bar>"
  define g where "g = \<bar>rnd (Wprop' / Wth')\<bar>"
  have g: "0 \<le> g"
    by (simp add: g_def)
  have "(1 - u) * d \<le> (4 * u + 3 * u ^ 2 + u ^ 3) * g"
    unfolding d_def g_def by (rule rounded_product_close [OF r u(1,2) Wcin Wth])
  also have "\<dots> \<le> 8 * u * g"
    using cubic_le_linear [OF u(1,2)] g by (rule mult_right_mono)
  also have "\<dots> \<le> (1 - u) / 10 ^ 9 * g"
    using u(3) g by (rule mult_right_mono)
  also have "\<dots> = (1 - u) * (g / 10 ^ 9)"
    by simp
  finally have "d \<le> g / 10 ^ 9"
    using u(2) by simp
  moreover from eff have "nprop' = rnd (Wprop' / Wcin')" "nth' = rnd (Wcin' / Wth')"
    "nglob' = rnd (Wprop' / Wth')"
    by (simp_all add: rounded_efficiencies_def)
  ultimately show ?thesis
    by (simp add: d_def g_def)
qed

section \<open>The claims\<close>

text \<open>
  C1. The claim states the exit Mach number as
  \<open>sqrt (2 / (gamma - 1) * ((Pt / Ps0) powr ((gamma - 1) / gamma) - 1))\<close>. The program
  subtracts one after the multiplication. At the first point of \<^verbatim>\<open>main.py\<close> the two
  differ in what is reported: the program's value is at least one, so the primary nozzle is
  clamped to Mach one, while the claimed formula gives a Mach number below one.
\<close>

theorem nozzle_mach_formula_divergence:
  "\<not> isl (main_point 1)
   \<and> M8_ad (p_nozzle8 (projr (main_point 1)))
       = np_sqrt (5 * (Pt8 (p_nozzle8 (projr (main_point 1))) / 89876) powr (2 / 7) - 1)
   \<and> \<not> np_less (M8_ad (p_nozzle8 (projr (main_point 1)))) (Fin 1)
   \<and> M8 (p_nozzle8 (projr (main_point 1))) = Fin 1
   \<and> np_less (M_ad_spec (Pt8 (p_nozzle8 (projr (main_point 1)))) 89876) (Fin 1)"
proof -
  obtain pt where pt: "main_point 1 = Inr pt"
    using main_point_returns [of 1] by auto
  from pt have pt': "engine_point 210 5 1.5 1300 0.85 280.65 89876 0.8 0.5 1 = Inr pt"
    by (simp add: main_point_def)
  note sec = engine_point_sections [OF pt']
  note n8 = nozzle_primary_values [OF sec(7)]
  obtain m where m: "M8_ad (p_nozzle8 pt) = Fin m" "1 \<le> m"
    using main_first_point_mach(1) [OF pt] by blast
  have "M8 (p_nozzle8 pt) = Fin 1"
    using m by (simp add: n8(4))
  moreover have "\<not> np_less (M8_ad (p_nozzle8 pt)) (Fin 1)"
    using m by simp
  moreover have "M8_ad (p_nozzle8 pt) = np_sqrt (5 * (Pt8 (p_nozzle8 pt) / 89876) powr (2 / 7) - 1)"
    by (simp add: n8(3) n8(2))
  ultimately show ?thesis
    using main_first_point_mach(2) [OF pt] by (simp add: pt)
qed

text \<open>
  C2. The claim clamps on the adiabatic Mach solution,
  \<open>sqrt (2 / (gamma - 1) * ((Pt / Ps0) powr ((gamma - 1) / gamma) - 1))\<close>; the program
  clamps on its own \<open>M8_ad\<close> (\<open>M18_ad\<close>), which subtracts one after the multiplication.
  For every sweep point that is evaluated and for each nozzle: when the adiabatic solution
  is real and below one, the program reports Mach one and not the solution; and whenever
  the program reports a Mach number other than one, the adiabatic solution is not real,
  where the claim asks for Mach one. So the program never reports the adiabatic solution
  of an unchoked nozzle.
\<close>

theorem choked_flow_clamp_divergence:
  assumes "engine_point dm beta pi_fan Tt4 M0 Ts0 Ps0 M1 M2 pi_hpc = Inr pt"
  shows "(\<forall>m. M_ad_spec (Pt8 (p_nozzle8 pt)) Ps0 = Fin m \<and> m < 1
            \<longrightarrow> M8 (p_nozzle8 pt) = Fin 1
                \<and> M8 (p_nozzle8 pt) \<noteq> M_ad_spec (Pt8 (p_nozzle8 pt)) Ps0)
       \<and> (M8 (p_nozzle8 pt) \<noteq> Fin 1 \<longrightarrow> M_ad_spec (Pt8 (p_nozzle8 pt)) Ps0 = NaN)
       \<and> (\<forall>m. M_ad_spec (Pt18 (p_nozzle18 pt)) Ps0 = Fin m \<and> m < 1
            \<longrightarrow> M18 (p_nozzle18 pt) = Fin 1
                \<and> M18 (p_nozzle18 pt) \<noteq> M_ad_spec (Pt18 (p_nozzle18 pt)) Ps0)
       \<and> (M18 (p_nozzle18 pt) \<noteq> Fin 1 \<longrightarrow> M_ad_spec (Pt18 (p_nozzle18 pt)) Ps0 = NaN)"
proof -
  note sec = engine_point_sections [OF assms]
  note n8 = nozzle_primary_values [OF sec(7)]
  note n18 = nozzle_secondary_values [OF sec(8)]
  define p8 where "p8 = (Pt8 (p_nozzle8 pt) / Ps0) powr (2 / 7)"
  define p18 where "p18 = (Pt18 (p_nozzle18 pt) / Ps0) powr (2 / 7)"
  have spec8: "M_ad_spec (Pt8 (p_nozzle8 pt)) Ps0 = np_sqrt (5 * (p8 - 1))"
    by (simp add: M_ad_spec_def gamma_exponents p8_def)
  have spec18: "M_ad_spec (Pt18 (p_nozzle18 pt)) Ps0 = np_sqrt (5 * (p18 - 1))"
    by (simp add: M_ad_spec_def gamma_exponents p18_def)
  have prog8: "M8_ad (p_nozzle8 pt) = np_sqrt (5 * p8 - 1)"
    by (simp add: n8(3) n8(2) p8_def)
  have prog18: "M18_ad (p_nozzle18 pt) = np_sqrt (5 * p18 - 1)"
    by (simp add: n18(3) n18(2) p18_def)
  have a: "M8 (p_nozzle8 pt) = Fin 1 \<and> M8 (p_nozzle8 pt) \<noteq> M_ad_spec (Pt8 (p_nozzle8 pt)) Ps0"
    if "M_ad_spec (Pt8 (p_nozzle8 pt)) Ps0 = Fin m \<and> m < 1" for m
  proof -
    from that have "\<not> np_less (M8_ad (p_nozzle8 pt)) (Fin 1)"
      unfolding spec8 prog8 by (intro coded_radicand_clamps_where_spec_is_real) simp
    then have "M8 (p_nozzle8 pt) = Fin 1"
      by (simp add: n8(4))
    with that show ?thesis
      by simp
  qed
  have b: "M_ad_spec (Pt8 (p_nozzle8 pt)) Ps0 = NaN" if "M8 (p_nozzle8 pt) \<noteq> Fin 1"
  proof -
    from that have "np_less (M8_ad (p_nozzle8 pt)) (Fin 1)"
      by (auto simp: n8(4) split: if_splits)
    then show ?thesis
      unfolding spec8 prog8 by (rule coded_unchoked_where_spec_is_not_real)
  qed
  have c: "M18 (p_nozzle18 pt) = Fin 1 \<and> M18 (p_nozzle18 pt) \<noteq> M_ad_spec (Pt18 (p_nozzle18 pt)) Ps0"
    if "M_ad_spec (Pt18 (p_nozzle18 pt)) Ps0 = Fin m \<and> m < 1" for m
  proof -
    from that have "\<not> np_less (M18_ad (p_nozzle18 pt)) (Fin 1)"
      unfolding spec18 prog18 by (intro coded_radicand_clamps_where_spec_is_real) simp
    then have "M18 (p_nozzle18 pt) = Fin 1"
      by (simp add: n18(4))
    with that show ?thesis
      by simp
  qed
  have d: "M_ad_spec (Pt18 (p_nozzle18 pt)) Ps0 = NaN" if "M18 (p_nozzle18 pt) \<noteq> Fin 1"
  proof -
    from that have "np_less (M18_ad (p_nozzle18 pt)) (Fin 1)"
      by (auto simp: n18(4) split: if_splits)
    then show ?thesis
      unfolding spec18 prog18 by (rule coded_unchoked_where_spec_is_not_real)
  qed
  from a b c d show ?thesis
    by blast
qed

text \<open>
  C2 at two inputs. At the first point of \<^verbatim>\<open>main.py\<close> the adiabatic solution of the
  primary nozzle is real and below one, and the program reports Mach one. On a bench run
  with a fan ratio of \<open>1 / 128\<close> the program reports Mach \<open>1 / 2\<close> for the secondary
  nozzle, where the adiabatic solution is not real.
\<close>

theorem choked_flow_clamp_divergence_witness:
  "(\<not> isl (main_point 1)
      \<and> (\<exists>m. M_ad_spec (Pt8 (p_nozzle8 (projr (main_point 1)))) 89876 = Fin m \<and> m < 1)
      \<and> M8 (p_nozzle8 (projr (main_point 1))) = Fin 1)
   \<and> (\<not> isl (engine_point 210 5 (1 / 128) 1300 0 300 89876 0.8 0.5 1)
      \<and> M18 (p_nozzle18 (projr (engine_point 210 5 (1 / 128) 1300 0 300 89876 0.8 0.5 1)))
          = Fin (1 / 2)
      \<and> M_ad_spec (Pt18 (p_nozzle18 (projr (engine_point 210 5 (1 / 128) 1300 0 300 89876 0.8 0.5 1))))
            89876 = NaN)"
proof (intro conjI)
  obtain pt where pt: "main_point 1 = Inr pt"
    using main_point_returns [of 1] by auto
  note c = choked_flow_clamp_divergence [OF pt [unfolded main_point_def]]
  have "np_less (M_ad_spec (Pt8 (p_nozzle8 pt)) 89876) (Fin 1)"
    by (rule main_first_point_mach(2) [OF pt])
  then obtain m where m: "M_ad_spec (Pt8 (p_nozzle8 pt)) 89876 = Fin m" "m < 1"
    by (auto simp: M_ad_spec_def np_sqrt_def split: if_splits)
  with c have "M8 (p_nozzle8 pt) = Fin 1"
    by blast
  with m show "\<not> isl (main_point 1)"
    and "\<exists>m. M_ad_spec (Pt8 (p_nozzle8 (projr (main_point 1)))) 89876 = Fin m \<and> m < 1"
    and "M8 (p_nozzle8 (projr (main_point 1))) = Fin 1"
    by (simp_all add: pt)
next
  obtain pt where pt: "engine_point 210 5 (1 / 128) 1300 0 300 89876 0.8 0.5 1 = Inr pt"
    and Pt13: "Pt13 (p_fan pt) = 89876 * (1 / 128)"
    using bench_point [of "1 / 128"] by auto
  note c = choked_flow_clamp_divergence [OF pt]
  note sec = engine_point_sections [OF pt]
  note n18 = nozzle_secondary_values [OF sec(8)]
  have ad: "M18_ad (p_nozzle18 pt) = Fin (1 / 2)"
    by (simp add: n18(3) Pt13 powr_27_of_128 np_sqrt_def sqrt_quarter)
  then have M18: "M18 (p_nozzle18 pt) = Fin (1 / 2)"
    by (simp add: n18(4))
  then have "M18 (p_nozzle18 pt) \<noteq> Fin 1"
    by simp
  with c have "M_ad_spec (Pt18 (p_nozzle18 pt)) 89876 = NaN"
    by blast
  with M18 show "\<not> isl (engine_point 210 5 (1 / 128) 1300 0 300 89876 0.8 0.5 1)"
    and "M18 (p_nozzle18 (projr (engine_point 210 5 (1 / 128) 1300 0 300 89876 0.8 0.5 1)))
          = Fin (1 / 2)"
    and "M_ad_spec (Pt18 (p_nozzle18 (projr (engine_point 210 5 (1 / 128) 1300 0 300 89876 0.8 0.5 1))))
            89876 = NaN"
    unfolding pt by simp_all
qed






text \<open>
  C5, amended. When the combustor exit temperature is below the compressor exit
  temperature (and below \<open>PCI\<close>, with a positive primary flow), the combustor section
  raises nothing: it returns the fuel mass flow of its formula, a negative number, and a
  negative fuel/air ratio.
\<close>

theorem combustor_has_no_validation:
  assumes "Tt4 < Tt3 h" and "Tt4 < PCI" and "0 < dm_fp fn"
  shows "\<exists>c. combustor_exit Tt4 fn h = Inr c
           \<and> dm_f c = dm_fp fn * cp * (Tt4 - Tt3 h) / (PCI - Tt4)
           \<and> dm_f c < 0
           \<and> f c = cp * (Tt4 - Tt3 h) / (PCI - Tt4)
           \<and> f c < 0"
proof -
  have neg: "cp * (Tt4 - Tt3 h) / (PCI - Tt4) < 0"
    using assms by (intro divide_neg_pos) (simp_all add: cp_def mult_pos_neg)
  have "dm_fp fn * cp * (Tt4 - Tt3 h) / (PCI - Tt4)
      = dm_fp fn * (cp * (Tt4 - Tt3 h) / (PCI - Tt4))"
    by simp
  also have "\<dots> < 0"
    using neg assms(3) by (simp only: mult_pos_neg)
  finally have "dm_fp fn * cp * (Tt4 - Tt3 h) / (PCI - Tt4) < 0" .
  with neg assms show ?thesis
    by (simp add: combustor_exit_iff)
qed

text \<open>
  C5, amended, at the last ratio of \<^verbatim>\<open>main.py\<close>'s sweep, 14, with \<open>Tt4\<close> lowered to
  700 K: the compressor exit is hotter than 700 K and the combustor section returns a
  negative fuel mass flow.
\<close>

theorem combustor_has_no_validation_witness:
  "700 < Tt3 (p_hpc (projr (engine_point 210 5 1.5 700 0.85 280.65 89876 0.8 0.5 14)))
   \<and> combustor_exit 700
        (p_fan (projr (engine_point 210 5 1.5 700 0.85 280.65 89876 0.8 0.5 14)))
        (p_hpc (projr (engine_point 210 5 1.5 700 0.85 280.65 89876 0.8 0.5 14)))
       = Inr (p_combustor (projr (engine_point 210 5 1.5 700 0.85 280.65 89876 0.8 0.5 14)))
   \<and> dm_f (p_combustor (projr (engine_point 210 5 1.5 700 0.85 280.65 89876 0.8 0.5 14))) < 0"
proof -
  obtain pt where pt: "engine_point 210 5 1.5 700 0.85 280.65 89876 0.8 0.5 14 = Inr pt"
    and hot: "762 < Tt3 (p_hpc pt)" and dm_fp: "dm_fp (p_fan pt) = 35"
    using cold_point by blast
  note sec = engine_point_sections [OF pt]
  have "\<exists>c. combustor_exit 700 (p_fan pt) (p_hpc pt) = Inr c
           \<and> dm_f c = dm_fp (p_fan pt) * cp * (700 - Tt3 (p_hpc pt)) / (PCI - 700)
           \<and> dm_f c < 0
           \<and> f c = cp * (700 - Tt3 (p_hpc pt)) / (PCI - 700)
           \<and> f c < 0"
    using hot dm_fp by (intro combustor_has_no_validation) (simp_all add: PCI_def)
  then have "dm_f (p_combustor pt) < 0"
    using sec(4) by auto
  with hot sec(4) show ?thesis
    unfolding pt by simp
qed

text \<open>
  C5 as stated fails there: the call returns, the point is evaluated without any error,
  \<open>Tt4 = 700 < Tt3\<close>, and \<open>dm_f\<close> is an ordinary negative number.
\<close>

theorem cold_combustor_is_not_flagged:
  "\<not> isl (compute_engine_performance 210 5 1.5 [14] 700 0.85 280.65 89876 0.8 0.5)
   \<and> \<not> isl (engine_point 210 5 1.5 700 0.85 280.65 89876 0.8 0.5 14)
   \<and> 700 < Tt3 (p_hpc (projr (engine_point 210 5 1.5 700 0.85 280.65 89876 0.8 0.5 14)))
   \<and> dm_f (p_combustor (projr (engine_point 210 5 1.5 700 0.85 280.65 89876 0.8 0.5 14))) < 0"
proof -
  obtain pt where pt: "engine_point 210 5 1.5 700 0.85 280.65 89876 0.8 0.5 14 = Inr pt"
    and hot: "762 < Tt3 (p_hpc pt)" and dm_f: "dm_f (p_combustor pt) < 0"
    using cold_point by blast
  have "\<not> isl (compute_engine_performance 210 5 1.5 [14] 700 0.85 280.65 89876 0.8 0.5)"
    unfolding compute_engine_performance_def sweep_single pt by simp
  with hot dm_f show ?thesis
    unfolding pt by simp
qed

text \<open>
  C6. The sections before the combustor do not read \<open>Tt4\<close>, so with every other argument
  and the ratio fixed their results \<open>i\<close>, \<open>fn\<close>, \<open>h\<close> (and with them \<open>Tt3\<close>) are fixed.
  Then, for a nonzero mass flow, \<open>Tt3 < PCI\<close> and \<open>Tt4 < Tt4' < PCI\<close>, the combustor
  section returns at both temperatures, its fuel/air ratio is
  \<open>cp * (Tt4 - Tt3) / (PCI - Tt4)\<close>, and the ratio at \<open>Tt4\<close> is strictly below the one at
  \<open>Tt4'\<close>.
\<close>

theorem fuel_air_ratio_strictly_increasing:
  assumes i: "inlet_conditions M0 Ts0 Ps0 = Inr i"
    and fn: "fan_exit dm beta pi_fan i = Inr fn"
    and h: "hpc_exit pi_hpc fn = Inr h"
    and dm: "dm \<noteq> 0"
    and Tt3: "Tt3 h < PCI"
    and less: "Tt4 < Tt4'" and below: "Tt4' < PCI"
  shows "\<exists>c c'. combustor_exit Tt4 fn h = Inr c \<and> combustor_exit Tt4' fn h = Inr c'
           \<and> f c = cp * (Tt4 - Tt3 h) / (PCI - Tt4)
           \<and> f c' = cp * (Tt4' - Tt3 h) / (PCI - Tt4')
           \<and> f c < f c'"
proof -
  from fn have "dm_fp fn = dm / (1 + beta)" "1 + beta \<noteq> 0"
    by (auto simp: fan_exit_iff)
  with dm have dm_fp: "dm_fp fn \<noteq> 0"
    by simp
  have "cp * (Tt4 - Tt3 h) / (PCI - Tt4) < cp * (Tt4' - Tt3 h) / (PCI - Tt4')"
    using less below Tt3 by (intro fuel_air_ratio_mono) (simp_all add: cp_def)
  then show ?thesis
    using dm_fp less below by (simp add: combustor_exit_iff)
qed

text \<open>
  C6 behind the compressor of \<^verbatim>\<open>main.py\<close>'s first point, at 1300 K and 1400 K.
\<close>

theorem fuel_air_ratio_strictly_increasing_witness:
  "\<not> isl (main_point 1)
   \<and> \<not> isl (combustor_exit 1300 (p_fan (projr (main_point 1))) (p_hpc (projr (main_point 1))))
   \<and> \<not> isl (combustor_exit 1400 (p_fan (projr (main_point 1))) (p_hpc (projr (main_point 1))))
   \<and> f (projr (combustor_exit 1300 (p_fan (projr (main_point 1))) (p_hpc (projr (main_point 1)))))
       < f (projr (combustor_exit 1400 (p_fan (projr (main_point 1))) (p_hpc (projr (main_point 1)))))"
proof -
  obtain pt where pt: "main_point 1 = Inr pt"
    using main_point_returns [of 1] by auto
  then have pt': "engine_point 210 5 1.5 1300 0.85 280.65 89876 0.8 0.5 1 = Inr pt"
    by (simp add: main_point_def)
  note sec = engine_point_sections [OF pt']
  from reference_cycle [of 1 1300] pt' have "Tt3 (p_hpc pt) \<le> 774"
    by auto
  then have Tt3: "Tt3 (p_hpc pt) < PCI"
    by (simp add: PCI_def)
  have "\<exists>c c'. combustor_exit 1300 (p_fan pt) (p_hpc pt) = Inr c
           \<and> combustor_exit 1400 (p_fan pt) (p_hpc pt) = Inr c'
           \<and> f c = cp * (1300 - Tt3 (p_hpc pt)) / (PCI - 1300)
           \<and> f c' = cp * (1400 - Tt3 (p_hpc pt)) / (PCI - 1400)
           \<and> f c < f c'"
    by (rule fuel_air_ratio_strictly_increasing [OF sec(1) sec(2) sec(3) _ Tt3])
      (simp_all add: PCI_def)
  then show ?thesis
    by (auto simp: pt)
qed

text \<open>
  C7, amended. For every sweep point that is evaluated, \<open>TSFC\<close> is the fuel mass flow
  divided by the specific thrust \<open>ST = T / dm\<close>; where the net thrust is a nonzero number
  \<open>t\<close> that is \<open>dm * dm_f / t\<close>, the fuel flow per unit thrust multiplied by the air mass
  flow.
\<close>

theorem tsfc_divides_by_specific_thrust:
  assumes pt: "engine_point dm beta pi_fan Tt4 M0 Ts0 Ps0 M1 M2 pi_hpc = Inr pt"
  shows "ST (p_thrust pt) = np_div (T (p_thrust pt)) (Fin dm)
       \<and> TSFC (p_thrust pt) = np_div (Fin (dm_f (p_combustor pt))) (ST (p_thrust pt))
       \<and> (\<forall>t. T (p_thrust pt) = Fin t \<and> t \<noteq> 0
            \<longrightarrow> TSFC (p_thrust pt) = Fin (dm * dm_f (p_combustor pt) / t))"
proof -
  note sec = engine_point_sections [OF pt]
  have dm: "dm \<noteq> 0"
    by (rule point_mass_flow_nonzero [OF pt])
  have ST: "ST (p_thrust pt) = np_div (T (p_thrust pt)) (Fin dm)"
    by (simp add: sec(9) thrust_calculations_def Let_def)
  have TSFC: "TSFC (p_thrust pt) = np_div (Fin (dm_f (p_combustor pt))) (ST (p_thrust pt))"
    by (simp add: sec(9) thrust_calculations_def Let_def)
  have "TSFC (p_thrust pt) = Fin (dm * dm_f (p_combustor pt) / t)"
    if "T (p_thrust pt) = Fin t" "t \<noteq> 0" for t
    using that dm by (simp add: TSFC ST)
  with ST TSFC show ?thesis
    by blast
qed

text \<open>
  C7, amended, at the first point of \<^verbatim>\<open>main.py\<close>: the net thrust is a positive number
  \<open>t\<close> and \<open>TSFC\<close> is \<open>210 * dm_f / t\<close>.
\<close>

theorem tsfc_divides_by_specific_thrust_witness:
  "\<not> isl (main_point 1)
   \<and> ST (p_thrust (projr (main_point 1))) = np_div (T (p_thrust (projr (main_point 1)))) (Fin 210)
   \<and> (\<exists>t. T (p_thrust (projr (main_point 1))) = Fin t \<and> 0 < t
         \<and> TSFC (p_thrust (projr (main_point 1)))
             = Fin (210 * dm_f (p_combustor (projr (main_point 1))) / t))"
proof -
  obtain pt where pt: "main_point 1 = Inr pt"
    using main_point_returns [of 1] by auto
  then have pt': "engine_point 210 5 1.5 1300 0.85 280.65 89876 0.8 0.5 1 = Inr pt"
    by (simp add: main_point_def)
  from reference_flow(4) [OF pt'] obtain t where t: "T (p_thrust pt) = Fin t" "0 < t"
    by auto
  note c = tsfc_divides_by_specific_thrust [OF pt']
  from c have "ST (p_thrust pt) = np_div (T (p_thrust pt)) (Fin 210)"
    by blast
  moreover from c t have "TSFC (p_thrust pt) = Fin (210 * dm_f (p_combustor pt) / t)"
    by simp
  ultimately show ?thesis
    using t by (auto simp: pt)
qed

text \<open>
  C7 as stated fails at the first point of \<^verbatim>\<open>main.py\<close>: \<open>TSFC\<close> is not the fuel mass
  flow divided by the net thrust.
\<close>

theorem tsfc_is_not_fuel_flow_per_thrust:
  "\<not> isl (main_point 1)
   \<and> TSFC (p_thrust (projr (main_point 1)))
       \<noteq> np_div (Fin (dm_f (p_combustor (projr (main_point 1)))))
            (T (p_thrust (projr (main_point 1))))"
proof -
  obtain pt where pt: "main_point 1 = Inr pt"
    using main_point_returns [of 1] by auto
  then have pt': "engine_point 210 5 1.5 1300 0.85 280.65 89876 0.8 0.5 1 = Inr pt"
    by (simp add: main_point_def)
  from reference_flow(4) [OF pt'] obtain t where t: "T (p_thrust pt) = Fin t" "0 < t"
    and TSFC: "TSFC (p_thrust pt) = Fin (dm_f (p_combustor pt) / (t / 210))"
    by auto
  from reference_cycle [of 1 1300] pt'
  have "Tt3 (p_hpc pt) \<le> 774"
    and "f (p_combustor pt) = cp * (1300 - Tt3 (p_hpc pt)) / (PCI - 1300)"
    and "dm_f (p_combustor pt) = 35 * f (p_combustor pt)"
    by auto
  then have dm_f: "0 < dm_f (p_combustor pt)"
    by (simp add: cp_def PCI_def)
  have "dm_f (p_combustor pt) / (t / 210) \<noteq> dm_f (p_combustor pt) / t"
    using t dm_f by (simp add: field_simps)
  then have "TSFC (p_thrust pt) \<noteq> np_div (Fin (dm_f (p_combustor pt))) (T (p_thrust pt))"
    using t by (simp add: TSFC)
  then show ?thesis
    by (simp add: pt)
qed

text \<open>
  C8, amended. With the arguments of \<^verbatim>\<open>main.py\<close> and the ratio 1 the inlet total
  temperature is \<open>280.65 * 1.1445 = 321.203925\<close> K and the inlet total pressure is
  \<open>89876 * 1.1445 powr 3.5\<close>, between 144144.8 and 144144.9 Pa: the values of the
  isentropic inlet relations the claim quotes.
\<close>

theorem main_inlet_total_conditions:
  "\<exists>pt. main_point 1 = Inr pt
     \<and> Tt2 (p_inlet pt) = 280.65 * (1 + (gamma - 1) / 2 * 0.85 ^ 2)
     \<and> Tt2 (p_inlet pt) = 321.203925
     \<and> Pt2 (p_inlet pt) = 89876 * (1 + (gamma - 1) / 2 * 0.85 ^ 2) powr (gamma / (gamma - 1))
     \<and> 144144.8 < Pt2 (p_inlet pt) \<and> Pt2 (p_inlet pt) < 144144.9"
proof -
  obtain pt where pt: "main_point 1 = Inr pt"
    using main_point_returns [of 1] by auto
  have num: "(1 + (gamma - 1) / 2 * 0.85 ^ 2 :: real) = 1.1445"
    by (simp add: gamma_def power_divide)
  have "Tt2 (p_inlet pt) = 280.65 * (1 + (gamma - 1) / 2 * 0.85 ^ 2)"
    unfolding num using main_inlet(1) [OF pt] by simp
  moreover have "(1 + (gamma - 1) / 2 * 0.85 ^ 2) powr (gamma / (gamma - 1))
      = (1.1445 :: real) powr (7 / 2)"
    by (simp only: num gamma_exponents(2))
  then have "Pt2 (p_inlet pt)
      = 89876 * (1 + (gamma - 1) / 2 * 0.85 ^ 2) powr (gamma / (gamma - 1))"
    using main_inlet(2) [OF pt] by (simp only:)
  ultimately show ?thesis
    using pt main_inlet [OF pt] by blast
qed

text \<open>
  C8 as stated fails: the inlet total temperature is more than 28 K away from 292.89 K and
  the inlet total pressure more than 4558 Pa away from 139586 Pa.
\<close>

theorem main_inlet_is_not_292_and_139586:
  "\<not> isl (main_point 1)
   \<and> 28 < \<bar>Tt2 (p_inlet (projr (main_point 1))) - 292.89\<bar>
   \<and> 4558 < \<bar>Pt2 (p_inlet (projr (main_point 1))) - 139586\<bar>"
proof -
  obtain pt where pt: "main_point 1 = Inr pt"
    using main_point_returns [of 1] by auto
  from main_inlet [OF pt] show ?thesis
    by (simp add: pt)
qed

text \<open>
  C9. Called with an empty list of compressor ratios, \<^verbatim>\<open>compute_engine_performance\<close>
  returns normally, whatever the other arguments are, and each of the fifteen lists of the
  result is empty.
\<close>

theorem empty_sweep_returns_empty_lists:
  "compute_engine_performance dm beta pi_fan [] Tt4 M0 Ts0 Ps0 M1 M2 = Inr empty_results
   \<and> all_lists empty_results = replicate 15 []"
  by (simp add: compute_engine_performance_def empty_lists)

text \<open>
  C10. The secondary-flow outputs do not depend on the sweep. Within one call that
  returns, all entries of \<open>T_fs_list\<close> are equal and all entries of \<open>A18_list\<close> are equal;
  two calls that return, with the same scalar arguments and ratio lists of the same
  length, have the same \<open>T_fs_list\<close> and the same \<open>A18_list\<close>. (Equality is that of the
  model's values, where \<open>NaN\<close> is one value.)
\<close>

theorem secondary_flow_independent_of_sweep:
  "(\<forall>r. compute_engine_performance dm beta pi_fan pi_hpc_list Tt4 M0 Ts0 Ps0 M1 M2 = Inr r
      \<longrightarrow> (\<forall>x \<in> set (T_fs_list r). \<forall>y \<in> set (T_fs_list r). x = y)
        \<and> (\<forall>x \<in> set (A18_list r). \<forall>y \<in> set (A18_list r). x = y))
   \<and> (\<forall>pi_hpc_list' r r'.
        compute_engine_performance dm beta pi_fan pi_hpc_list Tt4 M0 Ts0 Ps0 M1 M2 = Inr r
        \<and> compute_engine_performance dm beta pi_fan pi_hpc_list' Tt4 M0 Ts0 Ps0 M1 M2 = Inr r'
        \<and> length pi_hpc_list = length pi_hpc_list'
      \<longrightarrow> T_fs_list r = T_fs_list r' \<and> A18_list r = A18_list r')"
proof -
  let ?body = "engine_point dm beta pi_fan Tt4 M0 Ts0 Ps0 M1 M2"
  let ?tfs = "\<lambda>p. T_fs (p_thrust (projr (?body p)))"
  let ?a18 = "\<lambda>p. A18 (p_areas (projr (?body p)))"
  have same: "?tfs p = ?tfs q \<and> ?a18 p = ?a18 q"
    if "\<not> isl (?body p)" "\<not> isl (?body q)" for p q
  proof -
    from that have "?body p = Inr (projr (?body p))" "?body q = Inr (projr (?body q))"
      by simp_all
    from secondary_flow_of_point [OF this] show ?thesis
      by simp
  qed
  have within: "(\<forall>x \<in> set (T_fs_list r). \<forall>y \<in> set (T_fs_list r). x = y)
      \<and> (\<forall>x \<in> set (A18_list r). \<forall>y \<in> set (A18_list r). x = y)"
    if r: "compute_engine_performance dm beta pi_fan pi_hpc_list Tt4 M0 Ts0 Ps0 M1 M2 = Inr r"
    for r
    using sweep_secondary_lists [OF r] same by (auto simp: image_iff)
  have across: "T_fs_list r = T_fs_list r' \<and> A18_list r = A18_list r'"
    if r: "compute_engine_performance dm beta pi_fan pi_hpc_list Tt4 M0 Ts0 Ps0 M1 M2 = Inr r"
      and r': "compute_engine_performance dm beta pi_fan pi_hpc_list' Tt4 M0 Ts0 Ps0 M1 M2 = Inr r'"
      and len: "length pi_hpc_list = length pi_hpc_list'"
    for pi_hpc_list' r r'
  proof -
    note l = sweep_secondary_lists [OF r]
    note l' = sweep_secondary_lists [OF r']
    have "map ?tfs pi_hpc_list = map ?tfs pi_hpc_list'"
    proof (rule nth_equalityI)
      show "length (map ?tfs pi_hpc_list) = length (map ?tfs pi_hpc_list')"
        using len by simp
      fix i
      assume "i < length (map ?tfs pi_hpc_list)"
      then have "i < length pi_hpc_list" "i < length pi_hpc_list'"
        using len by simp_all
      then show "map ?tfs pi_hpc_list ! i = map ?tfs pi_hpc_list' ! i"
        using same [of "pi_hpc_list ! i" "pi_hpc_list' ! i"] l(3) l'(3) by simp
    qed
    moreover have "map ?a18 pi_hpc_list = map ?a18 pi_hpc_list'"
    proof (rule nth_equalityI)
      show "length (map ?a18 pi_hpc_list) = length (map ?a18 pi_hpc_list')"
        using len by simp
      fix i
      assume "i < length (map ?a18 pi_hpc_list)"
      then have "i < length pi_hpc_list" "i < length pi_hpc_list'"
        using len by simp_all
      then show "map ?a18 pi_hpc_list ! i = map ?a18 pi_hpc_list' ! i"
        using same [of "pi_hpc_list ! i" "pi_hpc_list' ! i"] l(3) l'(3) by simp
    qed
    ultimately show ?thesis
      by (simp add: l(1,2) l'(1,2))
  qed
  from within across show ?thesis
    by blast
qed

text \<open>
  C10 at the call of \<^verbatim>\<open>main.py\<close> and at the same call with the sweep reversed.
\<close>

theorem secondary_flow_independent_of_sweep_witness:
  "\<not> isl main_results
   \<and> \<not> isl (compute_engine_performance 210 5 1.5 (rev main_pi_hpc_list) 1300 0.85 280.65 89876
             0.8 0.5)
   \<and> length (T_fs_list (projr main_results)) = 14
   \<and> T_fs_list (projr main_results)
       = T_fs_list (projr (compute_engine_performance 210 5 1.5 (rev main_pi_hpc_list) 1300 0.85
           280.65 89876 0.8 0.5))
   \<and> A18_list (projr main_results)
       = A18_list (projr (compute_engine_performance 210 5 1.5 (rev main_pi_hpc_list) 1300 0.85
           280.65 89876 0.8 0.5))
   \<and> T_fs_list (projr main_results) ! 0 = T_fs_list (projr main_results) ! 13
   \<and> A18_list (projr main_results) ! 0 = A18_list (projr main_results) ! 13"
proof -
  define r where "r = projr main_results"
  have r: "compute_engine_performance 210 5 1.5 main_pi_hpc_list 1300 0.85 280.65 89876 0.8 0.5
      = Inr r"
    using main_results_returns by (simp add: r_def main_results_def)
  have "\<forall>p \<in> set (rev main_pi_hpc_list). \<not> isl (main_point p)"
    using main_sweep_in_range main_point_returns by fastforce
  then have ok: "\<not> isl (compute_engine_performance 210 5 1.5 (rev main_pi_hpc_list) 1300 0.85
      280.65 89876 0.8 0.5)"
    unfolding compute_engine_performance_def sweep_isl main_point_def by simp
  define r' where "r' = projr (compute_engine_performance 210 5 1.5 (rev main_pi_hpc_list) 1300
    0.85 280.65 89876 0.8 0.5)"
  have r': "compute_engine_performance 210 5 1.5 (rev main_pi_hpc_list) 1300 0.85 280.65 89876
      0.8 0.5 = Inr r'"
    using ok unfolding r'_def by simp
  note t = secondary_flow_independent_of_sweep
    [of 210 5 "1.5" main_pi_hpc_list 1300 "0.85" "280.65" 89876 "0.8" "0.5"]
  from t r r' have across: "T_fs_list r = T_fs_list r'" "A18_list r = A18_list r'"
    by (metis length_rev)+
  from t r have within: "\<forall>x \<in> set (T_fs_list r). \<forall>y \<in> set (T_fs_list r). x = y"
    "\<forall>x \<in> set (A18_list r). \<forall>y \<in> set (A18_list r). x = y"
    by blast+
  have len: "length (T_fs_list r) = 14" "length (A18_list r) = 14"
    using sweep_secondary_lists(1,2) [OF r] by (simp_all add: main_pi_hpc_list_def)
  then have "T_fs_list r ! 0 = T_fs_list r ! 13" "A18_list r ! 0 = A18_list r ! 13"
    using within by simp_all
  with across len ok main_results_returns show ?thesis
    unfolding r_def [symmetric] r'_def [symmetric] main_results_def [symmetric]
    by (simp add: r_def)
qed

end
